theory Spec2Isabelle
  imports Main "HOL-Library.Word"
begin

section \<open>Strings\<close>

text \<open>
  Go strings are byte sequences; they are modelled as \<open>string\<close> (a list of bytes).

  \<open>strings.ToLower\<close> has two paths. A string in which every byte is below
  \<open>utf8.RuneSelf\<close> (\<open>0x80\<close>) is ASCII: the letters \<open>A..Z\<close> are shifted to \<open>a..z\<close>
  and every other byte stays. Any other string goes through
  \<open>strings.Map(unicode.ToLower, s)\<close>, which decodes UTF-8 and maps every rune by Go's
  Unicode case tables (so that U+0130 and U+212A become the ASCII letters \<open>i\<close> and
  \<open>k\<close>). The tables belong to Go's library and are not modelled: that path is the
  parameter \<open>unicodeLower\<close>, and whatever is proved holds for every such function.
\<close>

definition lower_char :: "char \<Rightarrow> char" where
  "lower_char c =
     (case map_of (zip ''ABCDEFGHIJKLMNOPQRSTUVWXYZ'' ''abcdefghijklmnopqrstuvwxyz'') c of
        None \<Rightarrow> c
      | Some l \<Rightarrow> l)"

definition isASCII :: "string \<Rightarrow> bool" where
  "isASCII s = list_all (\<lambda>c. \<not> digit7 c) s"

definition ToLower :: "(string \<Rightarrow> string) \<Rightarrow> string \<Rightarrow> string" where
  "ToLower unicodeLower s = (if isASCII s then map lower_char s else unicodeLower s)"

fun HasPrefix :: "string \<Rightarrow> string \<Rightarrow> bool" where
  "HasPrefix s [] = True"
| "HasPrefix [] (p # ps) = False"
| "HasPrefix (c # cs) (p # ps) = (c = p \<and> HasPrefix cs ps)"

text \<open>\<open>strings.Contains s sub\<close>: \<open>sub\<close> occurs in \<open>s\<close> as a contiguous run.\<close>

fun Contains :: "string \<Rightarrow> string \<Rightarrow> bool" where
  "Contains [] sub = (sub = [])"
| "Contains (c # cs) sub = (HasPrefix (c # cs) sub \<or> Contains cs sub)"

section \<open>Errors and panics\<close>

text \<open>
  Every \<open>newError(...)\<close> of the source is one constructor, carrying the values the message
  is built from; \<open>.Base(err)\<close> keeps the cause. \<open>ErrorElsewhere\<close> stands for an error
  made by a function of the package that is declared in another file. A run-time panic
  (nil dereference, index out of range) is not an error value: it is the other kind of
  \<open>failure\<close>.
\<close>

type_synonym uint32 = "32 word"

record PortRange =
  From :: uint32
  To :: uint32

datatype error =
    ErrorElsewhere string
  | UnknownProtocol string                  \<comment> \<open>"Unknown protocol: ", p\<close>
  | UnknownSniffingProtocol string          \<comment> \<open>"unknown protocol: ", protocol\<close>
  | UnknownXudpProxyUDP443 string           \<comment> \<open>unknown "xudpProxyUDP443"\<close>
  | UnknownAllocationStrategy string        \<comment> \<open>"unknown allocation strategy: "\<close>
  | AnyIPWithoutPort                        \<comment> \<open>"Listen on AnyIP but no Port(s) set in InboundDetour."\<close>
  | SpecificIPWithoutPort                   \<comment> \<open>"Listen on specific ip without port in InboundDetour."\<close>
  | UnableToListenOnDomain string           \<comment> \<open>"unable to listen on domain address: "\<close>
  | NotEnoughPorts int "PortRange list"     \<comment> \<open>"not enough ports. concurrency = ", .., " ports: ", ..\<close>
  | FailedToBuildSniffing error             \<comment> \<open>"failed to build sniffing config"\<close>
  | FailedToParseInboundDetour error        \<comment> \<open>"failed to parse inbound detour config"\<close>
  | FailedToLoadInboundDetour error         \<comment> \<open>"failed to load inbound detour config."\<close>
  | ChainProxyConflict                      \<comment> \<open>"proxySettings.tag is conflicted with sockopt.dialerProxy"\<close>
  | UnableToSendThrough string              \<comment> \<open>"unable to send through: "\<close>
  | InvalidProxySettings error              \<comment> \<open>"invalid outbound detour proxy settings."\<close>
  | FailedToBuildMux error                  \<comment> \<open>"failed to build Mux config."\<close>
  | FailedToParseOutboundDetour error       \<comment> \<open>"failed to parse to outbound detour config."\<close>
  | FailedToParseDNS error                  \<comment> \<open>"failed to parse DNS config"\<close>

datatype panic = NilDereference | IndexOutOfRange | DomainOfIPAddress

datatype failure = Err error | Panic panic

text \<open>
  A call that returns \<open>(value, error)\<close> is a \<open>failure + value\<close>. \<open>wrap\<close> is
  \<open>newError(..).Base(err)\<close> on the error path: an error value gets its context, a panic
  passes through.
\<close>

definition andThen :: "failure + 'a \<Rightarrow> ('a \<Rightarrow> failure + 'b) \<Rightarrow> failure + 'b" where
  "andThen r f = (case r of Inl e \<Rightarrow> Inl e | Inr v \<Rightarrow> f v)"

definition wrap :: "(error \<Rightarrow> error) \<Rightarrow> failure \<Rightarrow> failure" where
  "wrap ctx f = (case f of Err e \<Rightarrow> Err (ctx e) | Panic p \<Rightarrow> Panic p)"

section \<open>The configuration document (package conf)\<close>

text \<open>
  Struct types that are declared in other files of the package are modelled from the way
  this file uses them. A struct this file never looks into (the module sub-documents, the
  per-transport settings blocks, the protocol settings the loader decodes) is a value of
  the type parameter \<open>'d\<close>; an instance that needs them apart takes a sum type for
  \<open>'d\<close>. Where this file reads some fields of such a struct, the record has those fields
  and one field \<open>.._Others\<close> for the rest, \<open>None\<close> when the rest is all zero values.
  A pointer field is an \<open>option\<close>, \<open>None\<close> for nil.
\<close>

record PortList =
  Ranges :: "PortRange list"   \<comment> \<open>Go: \<open>Range []PortRange\<close>\<close>

datatype AddressFamily = AddressFamilyIPv4 | AddressFamilyIPv6 | AddressFamilyDomain

datatype Address =
    IPv4Address "8 word list"
  | IPv6Address "8 word list"
  | DomainAddress string

fun Family :: "Address \<Rightarrow> AddressFamily" where
  "Family (IPv4Address _) = AddressFamilyIPv4"
| "Family (IPv6Address _) = AddressFamilyIPv6"
| "Family (DomainAddress _) = AddressFamilyDomain"

definition IsIP :: "AddressFamily \<Rightarrow> bool" where
  "IsIP f = (f = AddressFamilyIPv4 \<or> f = AddressFamilyIPv6)"

definition IsDomain :: "AddressFamily \<Rightarrow> bool" where
  "IsDomain f = (f = AddressFamilyDomain)"

text \<open>\<open>Domain()\<close> is only defined on a domain address.\<close>

fun Domain :: "Address \<Rightarrow> failure + string" where
  "Domain (DomainAddress d) = Inr d"
| "Domain (IPv4Address _) = Inl (Panic DomainOfIPAddress)"
| "Domain (IPv6Address _) = Inl (Panic DomainOfIPAddress)"

record SniffingConfig =
  sniff_Enabled :: bool
  sniff_DestOverride :: "string list option"
  sniff_DomainsExcluded :: "string list option"
  sniff_MetadataOnly :: bool
  sniff_RouteOnly :: bool

record MuxConfig =
  mux_Enabled :: bool
  mux_Concurrency :: "16 word"
  mux_XudpConcurrency :: "16 word"
  mux_XudpProxyUDP443 :: string

record InboundDetourAllocationConfig =
  alloc_Strategy :: string
  alloc_Concurrency :: "uint32 option"
  alloc_RefreshMin :: "uint32 option"

record 'd SocketConfig =
  sock_DialerProxy :: string
  sock_Others :: "'d option"

record 'd StreamConfig =
  TCPSettings :: "'d option"
  KCPSettings :: "'d option"
  WSSettings :: "'d option"
  HTTPSettings :: "'d option"
  DSSettings :: "'d option"
  SocketSettings :: "'d SocketConfig option"
  stream_Others :: "'d option"

record 'd TransportConfig =
  TCPConfig :: "'d option"
  KCPConfig :: "'d option"
  WSConfig :: "'d option"
  HTTPConfig :: "'d option"
  DSConfig :: "'d option"

record 'd ProxyConfig =
  proxy_Tag :: string
  proxy_Others :: "'d option"

record 'd InboundDetourConfig =
  i_Protocol :: string
  i_PortList :: "PortList option"
  i_ListenOn :: "Address option"
  i_Settings :: "string option"
  i_Tag :: string
  i_Allocation :: "InboundDetourAllocationConfig option"
  i_StreamSetting :: "'d StreamConfig option"
  i_DomainOverride :: "string list option"
  i_SniffingConfig :: "SniffingConfig option"

record 'd OutboundDetourConfig =
  o_Protocol :: string
  o_SendThrough :: "Address option"
  o_Tag :: string
  o_Settings :: "string option"
  o_StreamSetting :: "'d StreamConfig option"
  o_ProxySettings :: "'d ProxyConfig option"
  o_MuxSettings :: "MuxConfig option"

datatype StatsConfig = StatsConfig

text \<open>
  \<open>InboundDetours\<close> and \<open>OutboundDetours\<close> are tested against nil by \<open>Override\<close>, so a nil
  slice (\<open>None\<close>) and an empty one (\<open>Some []\<close>) are kept apart. \<open>InboundConfigs\<close> and
  \<open>OutboundConfigs\<close> are only measured, indexed and appended to: nil is \<open>[]\<close>.
\<close>

record 'd Config =
  Port :: "16 word"
  InboundConfig :: "'d InboundDetourConfig option"
  OutboundConfig :: "'d OutboundDetourConfig option"
  InboundDetours :: "'d InboundDetourConfig list option"
  OutboundDetours :: "'d OutboundDetourConfig list option"
  LogConfig :: "'d option"
  RouterConfig :: "'d option"
  DNSConfig :: "'d option"
  InboundConfigs :: "'d InboundDetourConfig list"
  OutboundConfigs :: "'d OutboundDetourConfig list"
  Transport :: "'d TransportConfig option"
  Policy :: "'d option"
  API :: "'d option"
  Metrics :: "'d option"
  Stats :: "StatsConfig option"
  Reverse :: "'d option"
  FakeDNS :: "'d option"
  Observatory :: "'d option"
  Tun :: "'d option"

section \<open>The compiled configuration (packages proxyman, internet, core)\<close>

text \<open>
  The values built by functions of other files (a built port list, a built address, the
  typed settings of a protocol or of a module) are values of the type parameter \<open>'v\<close>.
  \<open>serial.ToTypedMessage\<close> is modelled as keeping the message it wraps.
\<close>

datatype KnownProtocols = KnownProtocols_HTTP | KnownProtocols_TLS

datatype AllocationStrategy_Type =
  AllocationStrategy_Always | AllocationStrategy_Random | AllocationStrategy_External

record AllocationStrategy =
  as_Type :: AllocationStrategy_Type
  as_Concurrency :: "uint32 option"
  as_Refresh :: "uint32 option"

record proxyman_SniffingConfig =
  ps_Enabled :: bool
  ps_DestinationOverride :: "string list"
  ps_DomainsExcluded :: "string list"
  ps_MetadataOnly :: bool
  ps_RouteOnly :: bool

record MultiplexingConfig =
  pm_Enabled :: bool
  pm_Concurrency :: "32 word"
  pm_XudpConcurrency :: "32 word"
  pm_XudpProxyUDP443 :: string

record 'v internet_SocketConfig =
  DialerProxy :: string
  isock_Others :: "'v option"

record 'v internet_StreamConfig =
  istream_SocketSettings :: "'v internet_SocketConfig option"
  istream_Others :: "'v option"

record 'v internet_ProxyConfig =
  Tag :: string
  TransportLayerProxy :: bool
  iproxy_Others :: "'v option"

record 'v ReceiverConfig =
  rc_PortList :: "'v option"
  rc_Listen :: "'v option"
  rc_AllocationStrategy :: "AllocationStrategy option"
  rc_StreamSettings :: "'v internet_StreamConfig option"
  rc_SniffingSettings :: "proxyman_SniffingConfig option"
  rc_DomainOverride :: "KnownProtocols list"
  rc_ReceiveOriginalDestination :: bool

record 'v SenderConfig =
  sc_Via :: "'v option"
  sc_StreamSettings :: "'v internet_StreamConfig option"
  sc_ProxySettings :: "'v internet_ProxyConfig option"
  sc_MultiplexSettings :: "MultiplexingConfig option"

record 'v InboundHandlerConfig =
  ih_Tag :: string
  ih_ReceiverSettings :: "'v ReceiverConfig"
  ih_ProxySettings :: 'v

record 'v OutboundHandlerConfig =
  oh_SenderSettings :: "'v SenderConfig"
  oh_Tag :: string
  oh_ProxySettings :: 'v

text \<open>
  One entry of \<open>core.Config.App\<close>. The Go type of the message a builder returns fixes which
  module the entry configures, so the entry is tagged with the module.
\<close>

datatype 'v app =
    App_Dispatcher | App_InboundManager | App_OutboundManager
  | App_API 'v | App_Metrics 'v | App_Stats | App_Log 'v
  | App_Router 'v | App_DNS 'v | App_Policy 'v | App_Reverse 'v
  | App_FakeDNS 'v | App_Observatory 'v | App_Tun 'v

record 'v core_Config =
  App :: "'v app list"
  Inbound :: "'v InboundHandlerConfig list"
  Outbound :: "'v OutboundHandlerConfig list"

section \<open>Functions that are defined elsewhere\<close>

text \<open>
  The functions of the package that other files define, and \<open>Map_unicode_ToLower\<close>, the
  path of \<open>strings.ToLower\<close> for a string that is not ASCII.

  The loaders' result is an \<open>interface{}\<close>; the inbound compiler asks whether it is a
  \<open>*DokodemoConfig\<close> and reads its \<open>Redirect\<close>.
\<close>

datatype 'd RawConfig = DokodemoConfig bool 'd | OtherConfig 'd

record ('d, 'v) env =
  Map_unicode_ToLower :: "string \<Rightarrow> string"
  PortList_Build :: "PortList \<Rightarrow> 'v"
  Address_Build :: "Address \<Rightarrow> 'v"
  Address_String :: "Address \<Rightarrow> string"
  StreamConfig_Build :: "'d StreamConfig \<Rightarrow> failure + 'v internet_StreamConfig"
  ProxyConfig_Build :: "'d ProxyConfig \<Rightarrow> failure + 'v internet_ProxyConfig"
  inbound_LoadWithID :: "string \<Rightarrow> string \<Rightarrow> failure + 'd RawConfig"
  outbound_LoadWithID :: "string \<Rightarrow> string \<Rightarrow> failure + 'd RawConfig"
  Buildable_Build :: "'d RawConfig \<Rightarrow> failure + 'v"
  PostProcessConfigureFile :: "'d Config \<Rightarrow> failure + 'd Config"
  APIConfig_Build :: "'d \<Rightarrow> failure + 'v"
  MetricsConfig_Build :: "'d \<Rightarrow> failure + 'v"
  LogConfig_Build :: "'d \<Rightarrow> 'v"
  DefaultLogConfig :: "'v"
  RouterConfig_Build :: "'d \<Rightarrow> failure + 'v"
  DNSConfig_Build :: "'d \<Rightarrow> failure + 'v"
  PolicyConfig_Build :: "'d \<Rightarrow> failure + 'v"
  ReverseConfig_Build :: "'d \<Rightarrow> failure + 'v"
  FakeDNSConfig_Build :: "'d \<Rightarrow> failure + 'v"
  ObservatoryConfig_Build :: "'d \<Rightarrow> failure + 'v"
  TunConfig_Build :: "'d \<Rightarrow> failure + 'v"

section \<open>Builders of the sub-documents\<close>

text \<open>
  The builders that lower-case a string take the Unicode path of \<open>strings.ToLower\<close> as
  their first argument \<open>U\<close>.

  \<open>toProtocolList\<close>: the loop appends to \<open>kp\<close> and returns at the first unknown name.
\<close>

fun toProtocolList_loop ::
  "(string \<Rightarrow> string) \<Rightarrow> KnownProtocols list \<Rightarrow> string list \<Rightarrow> failure + KnownProtocols list" where
  "toProtocolList_loop U kp [] = Inr kp"
| "toProtocolList_loop U kp (p # s) =
     (let l = ToLower U p in
      if l = ''http'' then toProtocolList_loop U (kp @ [KnownProtocols_HTTP]) s
      else if l = ''https'' \<or> l = ''tls'' \<or> l = ''ssl'' then
        toProtocolList_loop U (kp @ [KnownProtocols_TLS]) s
      else Inl (Err (UnknownProtocol p)))"

definition toProtocolList ::
  "(string \<Rightarrow> string) \<Rightarrow> string list \<Rightarrow> failure + KnownProtocols list" where
  "toProtocolList U s = toProtocolList_loop U [] s"

text \<open>\<open>SniffingConfig.Build\<close>.\<close>

fun sniffing_loop ::
  "(string \<Rightarrow> string) \<Rightarrow> string list \<Rightarrow> string list \<Rightarrow> failure + string list" where
  "sniffing_loop U p [] = Inr p"
| "sniffing_loop U p (protocol # rest) =
     (let l = ToLower U protocol in
      if l = ''http'' then sniffing_loop U (p @ [''http'']) rest
      else if l = ''tls'' \<or> l = ''https'' \<or> l = ''ssl'' then
        sniffing_loop U (p @ [''tls'']) rest
      else if l = ''quic'' then sniffing_loop U (p @ [''quic'']) rest
      else if l = ''fakedns'' then sniffing_loop U (p @ [''fakedns'']) rest
      else if l = ''fakedns+others'' then sniffing_loop U (p @ [''fakedns+others'']) rest
      else Inl (Err (UnknownSniffingProtocol protocol)))"

definition SniffingConfig_Build ::
  "(string \<Rightarrow> string) \<Rightarrow> SniffingConfig \<Rightarrow> failure + proxyman_SniffingConfig" where
  "SniffingConfig_Build U c =
     andThen (case sniff_DestOverride c of None \<Rightarrow> Inr [] | Some l \<Rightarrow> sniffing_loop U [] l)
       (\<lambda>p.
          let d = (case sniff_DomainsExcluded c of
                     None \<Rightarrow> []
                   | Some l \<Rightarrow> map (ToLower U) l) in
          Inr \<lparr>ps_Enabled = sniff_Enabled c,
               ps_DestinationOverride = p,
               ps_DomainsExcluded = d,
               ps_MetadataOnly = sniff_MetadataOnly c,
               ps_RouteOnly = sniff_RouteOnly c\<rparr>)"

text \<open>
  \<open>MuxConfig.Build\<close>. The source also stores the default \<open>"reject"\<close> back into the
  document; the model returns the built value. \<open>int32(int16)\<close> extends the sign.
\<close>

definition MuxConfig_Build :: "MuxConfig \<Rightarrow> failure + MultiplexingConfig" where
  "MuxConfig_Build m =
     (let x = mux_XudpProxyUDP443 m in
      if x = [] then
        Inr \<lparr>pm_Enabled = mux_Enabled m,
             pm_Concurrency = scast (mux_Concurrency m),
             pm_XudpConcurrency = scast (mux_XudpConcurrency m),
             pm_XudpProxyUDP443 = ''reject''\<rparr>
      else if x = ''reject'' \<or> x = ''allow'' \<or> x = ''skip'' then
        Inr \<lparr>pm_Enabled = mux_Enabled m,
             pm_Concurrency = scast (mux_Concurrency m),
             pm_XudpConcurrency = scast (mux_XudpConcurrency m),
             pm_XudpProxyUDP443 = x\<rparr>
      else Inl (Err (UnknownXudpProxyUDP443 x)))"

text \<open>\<open>InboundDetourAllocationConfig.Build\<close>: the strategy name is lower-cased first.\<close>

definition allocation_type ::
  "(string \<Rightarrow> string) \<Rightarrow> string \<Rightarrow> AllocationStrategy_Type option" where
  "allocation_type U s =
     (let l = ToLower U s in
      if l = ''always'' then Some AllocationStrategy_Always
      else if l = ''random'' then Some AllocationStrategy_Random
      else if l = ''external'' then Some AllocationStrategy_External
      else None)"

definition InboundDetourAllocationConfig_Build ::
  "(string \<Rightarrow> string) \<Rightarrow> InboundDetourAllocationConfig \<Rightarrow> failure + AllocationStrategy" where
  "InboundDetourAllocationConfig_Build U c =
     (case allocation_type U (alloc_Strategy c) of
        None \<Rightarrow> Inl (Err (UnknownAllocationStrategy (alloc_Strategy c)))
      | Some t \<Rightarrow>
          Inr \<lparr>as_Type = t,
               as_Concurrency = alloc_Concurrency c,
               as_Refresh = alloc_RefreshMin c\<rparr>)"

text \<open>\<open>StatsConfig.Build\<close> returns an empty \<open>stats.Config\<close> and never fails.\<close>

definition StatsConfig_Build :: "StatsConfig \<Rightarrow> failure + 'v app" where
  "StatsConfig_Build c = Inr App_Stats"

section \<open>The inbound compiler\<close>

text \<open>
  \<open>InboundDetourConfig.Build\<close> is a sequence of steps, each of which may return early.
  Every step is one function here; \<open>InboundDetourConfig_Build\<close> chains them in the
  source's order.
\<close>

definition emptyReceiverConfig :: "'v ReceiverConfig" where
  "emptyReceiverConfig =
     \<lparr>rc_PortList = None, rc_Listen = None, rc_AllocationStrategy = None,
      rc_StreamSettings = None, rc_SniffingSettings = None, rc_DomainOverride = [],
      rc_ReceiveOriginalDestination = False\<rparr>"

text \<open>
  \<open>listenDS\<close>: \<open>&&\<close> evaluates \<open>Domain()[0]\<close> only for a domain address; indexing the empty
  string panics.
\<close>

definition listenDS :: "Address \<Rightarrow> failure + bool" where
  "listenDS a =
     (if IsDomain (Family a) then
        andThen (Domain a)
          (\<lambda>d. case d of
                  [] \<Rightarrow> Inl (Panic IndexOutOfRange)
                | ch # _ \<Rightarrow> Inr (ch = CHR ''/'' \<or> ch = CHR ''@''))
      else Inr False)"

definition listenIP :: "Address \<Rightarrow> failure + bool" where
  "listenIP a =
     (if IsIP (Family a) then Inr True
      else if IsDomain (Family a) then andThen (Domain a) (\<lambda>d. Inr (d = ''localhost''))
      else Inr False)"

text \<open>The listen address and the port specification.\<close>

definition listen_step ::
  "('d, 'v) env \<Rightarrow> 'd InboundDetourConfig \<Rightarrow> 'v ReceiverConfig \<Rightarrow> failure + 'v ReceiverConfig" where
  "listen_step E c receiverSettings =
     (case i_ListenOn c of
        None \<Rightarrow>
          (case i_PortList c of
             None \<Rightarrow> Inl (Err AnyIPWithoutPort)
           | Some pl \<Rightarrow> Inr (receiverSettings\<lparr>rc_PortList := Some (PortList_Build E pl)\<rparr>))
      | Some a \<Rightarrow>
          (let rs = receiverSettings\<lparr>rc_Listen := Some (Address_Build E a)\<rparr> in
           andThen (listenDS a) (\<lambda>ds.
           andThen (listenIP a) (\<lambda>ip.
             if ip then
               (case i_PortList c of
                  None \<Rightarrow> Inl (Err SpecificIPWithoutPort)
                | Some pl \<Rightarrow> Inr (rs\<lparr>rc_PortList := Some (PortList_Build E pl)\<rparr>))
             else if ds then
               (case i_PortList c of
                  None \<Rightarrow> Inr rs
                | Some pl \<Rightarrow> Inr (rs\<lparr>rc_PortList := None\<rparr>))
             else andThen (Domain a) (\<lambda>d. Inl (Err (UnableToListenOnDomain d)))))))"

text \<open>
  The port capacity. \<open>pr.To - pr.From + 1\<close> is computed in \<open>uint32\<close> and wraps; the sum is
  a Go \<open>int\<close>, taken as 64 bits wide (two's complement), so \<open>int(uint32)\<close> keeps the value.
\<close>

definition go_int :: "int \<Rightarrow> int" where
  "go_int x = signed_take_bit 63 x"

fun portRange_loop :: "int \<Rightarrow> PortRange list \<Rightarrow> int" where
  "portRange_loop portRange [] = portRange"
| "portRange_loop portRange (pr # prs) =
     portRange_loop (go_int (portRange + uint (To pr - From pr + 1))) prs"

text \<open>
  The allocation strategy. \<open>c.PortList.Range\<close> dereferences the port list whether or not
  it is nil.
\<close>

definition allocation_step ::
  "('d, 'v) env \<Rightarrow> 'd InboundDetourConfig \<Rightarrow> 'v ReceiverConfig \<Rightarrow> failure + 'v ReceiverConfig" where
  "allocation_step E c receiverSettings =
     (case i_Allocation c of
        None \<Rightarrow> Inr receiverSettings
      | Some al \<Rightarrow>
          (let concurrency =
                 (case alloc_Concurrency al of
                    None \<Rightarrow> - 1
                  | Some k \<Rightarrow> if alloc_Strategy al = ''random'' then uint k else - 1)
           in case i_PortList c of
                None \<Rightarrow> Inl (Panic NilDereference)
              | Some pl \<Rightarrow>
                  (let portRange = portRange_loop 0 (Ranges pl) in
                   if concurrency \<ge> 0 \<and> concurrency \<ge> portRange then
                     Inl (Err (NotEnoughPorts concurrency (Ranges pl)))
                   else
                     andThen (InboundDetourAllocationConfig_Build (Map_unicode_ToLower E) al)
                       (\<lambda>as. Inr (receiverSettings\<lparr>rc_AllocationStrategy := Some as\<rparr>)))))"

definition stream_step ::
  "('d, 'v) env \<Rightarrow> 'd InboundDetourConfig \<Rightarrow> 'v ReceiverConfig \<Rightarrow> failure + 'v ReceiverConfig" where
  "stream_step E c receiverSettings =
     (case i_StreamSetting c of
        None \<Rightarrow> Inr receiverSettings
      | Some s \<Rightarrow>
          andThen (StreamConfig_Build E s)
            (\<lambda>ss. Inr (receiverSettings\<lparr>rc_StreamSettings := Some ss\<rparr>)))"

definition sniffing_step ::
  "('d, 'v) env \<Rightarrow> 'd InboundDetourConfig \<Rightarrow> 'v ReceiverConfig \<Rightarrow> failure + 'v ReceiverConfig" where
  "sniffing_step E c receiverSettings =
     (case i_SniffingConfig c of
        None \<Rightarrow> Inr receiverSettings
      | Some sc \<Rightarrow>
          (case SniffingConfig_Build (Map_unicode_ToLower E) sc of
             Inl f \<Rightarrow> Inl (wrap FailedToBuildSniffing f)
           | Inr s \<Rightarrow> Inr (receiverSettings\<lparr>rc_SniffingSettings := Some s\<rparr>)))"

definition domainOverride_step ::
  "('d, 'v) env \<Rightarrow> 'd InboundDetourConfig \<Rightarrow> 'v ReceiverConfig \<Rightarrow> failure + 'v ReceiverConfig" where
  "domainOverride_step E c receiverSettings =
     (case i_DomainOverride c of
        None \<Rightarrow> Inr receiverSettings
      | Some l \<Rightarrow>
          (case toProtocolList (Map_unicode_ToLower E) l of
             Inl f \<Rightarrow> Inl (wrap FailedToParseInboundDetour f)
           | Inr kp \<Rightarrow> Inr (receiverSettings\<lparr>rc_DomainOverride := kp\<rparr>)))"

text \<open>The protocol settings, and the handler that is returned.\<close>

definition settings_step ::
  "('d, 'v) env \<Rightarrow> 'd InboundDetourConfig \<Rightarrow> 'v ReceiverConfig \<Rightarrow> failure + 'v InboundHandlerConfig" where
  "settings_step E c receiverSettings =
     (let settings = (case i_Settings c of None \<Rightarrow> ''{}'' | Some s \<Rightarrow> s) in
      case inbound_LoadWithID E settings (i_Protocol c) of
        Inl f \<Rightarrow> Inl (wrap FailedToLoadInboundDetour f)
      | Inr rawConfig \<Rightarrow>
          (let rs = (case rawConfig of
                       DokodemoConfig redirect _ \<Rightarrow>
                         receiverSettings\<lparr>rc_ReceiveOriginalDestination := redirect\<rparr>
                     | OtherConfig _ \<Rightarrow> receiverSettings)
           in andThen (Buildable_Build E rawConfig)
                (\<lambda>ts. Inr \<lparr>ih_Tag = i_Tag c, ih_ReceiverSettings = rs, ih_ProxySettings = ts\<rparr>)))"

definition InboundDetourConfig_Build ::
  "('d, 'v) env \<Rightarrow> 'd InboundDetourConfig \<Rightarrow> failure + 'v InboundHandlerConfig" where
  "InboundDetourConfig_Build E c =
     andThen (listen_step E c emptyReceiverConfig) (\<lambda>r1.
     andThen (allocation_step E c r1) (\<lambda>r2.
     andThen (stream_step E c r2) (\<lambda>r3.
     andThen (sniffing_step E c r3) (\<lambda>r4.
     andThen (domainOverride_step E c r4) (\<lambda>r5.
     settings_step E c r5)))))"

section \<open>The outbound compiler\<close>

text \<open>\<open>checkChainProxyConfig\<close> returns nil (\<open>None\<close>) or the conflict error.\<close>

definition checkChainProxyConfig :: "'d OutboundDetourConfig \<Rightarrow> error option" where
  "checkChainProxyConfig c =
     (case o_StreamSetting c of
        None \<Rightarrow> None
      | Some ss \<Rightarrow>
          (case o_ProxySettings c of
             None \<Rightarrow> None
           | Some ps \<Rightarrow>
               (case SocketSettings ss of
                  None \<Rightarrow> None
                | Some so \<Rightarrow>
                    if length (proxy_Tag ps) > 0 \<and> length (sock_DialerProxy so) > 0
                    then Some ChainProxyConflict
                    else None)))"

definition emptySenderConfig :: "'v SenderConfig" where
  "emptySenderConfig =
     \<lparr>sc_Via = None, sc_StreamSettings = None, sc_ProxySettings = None,
      sc_MultiplexSettings = None\<rparr>"

definition sendThrough_step ::
  "('d, 'v) env \<Rightarrow> 'd OutboundDetourConfig \<Rightarrow> 'v SenderConfig \<Rightarrow> failure + 'v SenderConfig" where
  "sendThrough_step E c senderSettings =
     (case o_SendThrough c of
        None \<Rightarrow> Inr senderSettings
      | Some address \<Rightarrow>
          if IsDomain (Family address)
          then Inl (Err (UnableToSendThrough (Address_String E address)))
          else Inr (senderSettings\<lparr>sc_Via := Some (Address_Build E address)\<rparr>))"

definition outbound_stream_step ::
  "('d, 'v) env \<Rightarrow> 'd OutboundDetourConfig \<Rightarrow> 'v SenderConfig \<Rightarrow> failure + 'v SenderConfig" where
  "outbound_stream_step E c senderSettings =
     (case o_StreamSetting c of
        None \<Rightarrow> Inr senderSettings
      | Some s \<Rightarrow>
          andThen (StreamConfig_Build E s)
            (\<lambda>ss. Inr (senderSettings\<lparr>sc_StreamSettings := Some ss\<rparr>)))"

text \<open>
  The proxy-chain settings. For a transport-layer proxy the tag goes into the socket
  settings of the stream settings, which are made if they are missing, and \<open>ps\<close> is set to
  nil before it is stored.
\<close>

definition setDialerProxy ::
  "'v internet_StreamConfig option \<Rightarrow> string \<Rightarrow> 'v internet_StreamConfig" where
  "setDialerProxy streamSettings tag =
     (case streamSettings of
        Some ss \<Rightarrow>
          (case istream_SocketSettings ss of
             Some so \<Rightarrow> ss\<lparr>istream_SocketSettings := Some (so\<lparr>DialerProxy := tag\<rparr>)\<rparr>
           | None \<Rightarrow>
               ss\<lparr>istream_SocketSettings := Some \<lparr>DialerProxy = tag, isock_Others = None\<rparr>\<rparr>)
      | None \<Rightarrow>
          \<lparr>istream_SocketSettings = Some \<lparr>DialerProxy = tag, isock_Others = None\<rparr>,
           istream_Others = None\<rparr>)"

definition proxySettings_step ::
  "('d, 'v) env \<Rightarrow> 'd OutboundDetourConfig \<Rightarrow> 'v SenderConfig \<Rightarrow> failure + 'v SenderConfig" where
  "proxySettings_step E c senderSettings =
     (case o_ProxySettings c of
        None \<Rightarrow> Inr senderSettings
      | Some p \<Rightarrow>
          (case ProxyConfig_Build E p of
             Inl f \<Rightarrow> Inl (wrap InvalidProxySettings f)
           | Inr ps \<Rightarrow>
               if TransportLayerProxy ps then
                 Inr (senderSettings
                        \<lparr>sc_StreamSettings :=
                           Some (setDialerProxy (sc_StreamSettings senderSettings) (Tag ps)),
                         sc_ProxySettings := None\<rparr>)
               else Inr (senderSettings\<lparr>sc_ProxySettings := Some ps\<rparr>)))"

definition mux_step ::
  "'d OutboundDetourConfig \<Rightarrow> 'v SenderConfig \<Rightarrow> failure + 'v SenderConfig" where
  "mux_step c senderSettings =
     (case o_MuxSettings c of
        None \<Rightarrow> Inr senderSettings
      | Some m \<Rightarrow>
          (case MuxConfig_Build m of
             Inl f \<Rightarrow> Inl (wrap FailedToBuildMux f)
           | Inr ms \<Rightarrow> Inr (senderSettings\<lparr>sc_MultiplexSettings := Some ms\<rparr>)))"

definition outbound_settings_step ::
  "('d, 'v) env \<Rightarrow> 'd OutboundDetourConfig \<Rightarrow> 'v SenderConfig \<Rightarrow> failure + 'v OutboundHandlerConfig" where
  "outbound_settings_step E c senderSettings =
     (let settings = (case o_Settings c of None \<Rightarrow> ''{}'' | Some s \<Rightarrow> s) in
      case outbound_LoadWithID E settings (o_Protocol c) of
        Inl f \<Rightarrow> Inl (wrap FailedToParseOutboundDetour f)
      | Inr rawConfig \<Rightarrow>
          andThen (Buildable_Build E rawConfig)
            (\<lambda>ts. Inr \<lparr>oh_SenderSettings = senderSettings, oh_Tag = o_Tag c,
                        oh_ProxySettings = ts\<rparr>))"

definition OutboundDetourConfig_Build ::
  "('d, 'v) env \<Rightarrow> 'd OutboundDetourConfig \<Rightarrow> failure + 'v OutboundHandlerConfig" where
  "OutboundDetourConfig_Build E c =
     (case checkChainProxyConfig c of
        Some err \<Rightarrow> Inl (Err err)
      | None \<Rightarrow>
          andThen (sendThrough_step E c emptySenderConfig) (\<lambda>s1.
          andThen (outbound_stream_step E c s1) (\<lambda>s2.
          andThen (proxySettings_step E c s2) (\<lambda>s3.
          andThen (mux_step c s3) (\<lambda>s4.
          outbound_settings_step E c s4)))))"

section \<open>The override merger\<close>

text \<open>
  \<open>findInboundTag\<close> and \<open>findOutboundTag\<close>: the index of the first entry with the tag, or
  \<open>-1\<close>.
\<close>

fun findInboundTag_loop :: "nat \<Rightarrow> 'd InboundDetourConfig list \<Rightarrow> string \<Rightarrow> int" where
  "findInboundTag_loop idx [] tag = - 1"
| "findInboundTag_loop idx (ib # rest) tag =
     (if i_Tag ib = tag then int idx else findInboundTag_loop (Suc idx) rest tag)"

definition findInboundTag :: "'d Config \<Rightarrow> string \<Rightarrow> int" where
  "findInboundTag c tag = findInboundTag_loop 0 (InboundConfigs c) tag"

fun findOutboundTag_loop :: "nat \<Rightarrow> 'd OutboundDetourConfig list \<Rightarrow> string \<Rightarrow> int" where
  "findOutboundTag_loop idx [] tag = - 1"
| "findOutboundTag_loop idx (ob # rest) tag =
     (if o_Tag ob = tag then int idx else findOutboundTag_loop (Suc idx) rest tag)"

definition findOutboundTag :: "'d Config \<Rightarrow> string \<Rightarrow> int" where
  "findOutboundTag c tag = findOutboundTag_loop 0 (OutboundConfigs c) tag"

text \<open>
  \<open>Override\<close> changes the base document \<open>c\<close> in place; the model returns the document it
  leaves. The lines it writes to the log are not modelled. The three parts below are the
  three parts of the source, in its order. In the first part every statement
  \<open>if o.X != nil { c.X = o.X }\<close> sets one field of \<open>c\<close> and reads no other, so the
  sixteen statements are one record update. \<open>U\<close> is the Unicode path of
  \<open>strings.ToLower\<close>, which the outbound part applies to the caller identity.
\<close>

definition override_members :: "'d Config \<Rightarrow> 'd Config \<Rightarrow> 'd Config" where
  "override_members c ov =
     c\<lparr>LogConfig := (if LogConfig ov \<noteq> None then LogConfig ov else LogConfig c),
       RouterConfig := (if RouterConfig ov \<noteq> None then RouterConfig ov else RouterConfig c),
       DNSConfig := (if DNSConfig ov \<noteq> None then DNSConfig ov else DNSConfig c),
       Transport := (if Transport ov \<noteq> None then Transport ov else Transport c),
       Policy := (if Policy ov \<noteq> None then Policy ov else Policy c),
       API := (if API ov \<noteq> None then API ov else API c),
       Metrics := (if Metrics ov \<noteq> None then Metrics ov else Metrics c),
       Stats := (if Stats ov \<noteq> None then Stats ov else Stats c),
       Reverse := (if Reverse ov \<noteq> None then Reverse ov else Reverse c),
       FakeDNS := (if FakeDNS ov \<noteq> None then FakeDNS ov else FakeDNS c),
       Observatory := (if Observatory ov \<noteq> None then Observatory ov else Observatory c),
       Tun := (if Tun ov \<noteq> None then Tun ov else Tun c),
       InboundConfig := (if InboundConfig ov \<noteq> None then InboundConfig ov else InboundConfig c),
       OutboundConfig :=
         (if OutboundConfig ov \<noteq> None then OutboundConfig ov else OutboundConfig c),
       InboundDetours :=
         (if InboundDetours ov \<noteq> None then InboundDetours ov else InboundDetours c),
       OutboundDetours :=
         (if OutboundDetours ov \<noteq> None then OutboundDetours ov else OutboundDetours c)\<rparr>"

definition override_inbounds :: "'d Config \<Rightarrow> 'd Config \<Rightarrow> 'd Config" where
  "override_inbounds c ov =
     (if length (InboundConfigs ov) > 0 then
        if length (InboundConfigs c) > 0 \<and> length (InboundConfigs ov) = 1 then
          (let idx = findInboundTag c (i_Tag (InboundConfigs ov ! 0)) in
           if idx > - 1
           then c\<lparr>InboundConfigs := (InboundConfigs c)[nat idx := InboundConfigs ov ! 0]\<rparr>
           else c\<lparr>InboundConfigs := InboundConfigs c @ [InboundConfigs ov ! 0]\<rparr>)
        else c\<lparr>InboundConfigs := InboundConfigs ov\<rparr>
      else c)"

definition override_outbounds ::
  "(string \<Rightarrow> string) \<Rightarrow> 'd Config \<Rightarrow> 'd Config \<Rightarrow> string \<Rightarrow> 'd Config" where
  "override_outbounds U c ov fn =
     (if length (OutboundConfigs ov) > 0 then
        if length (OutboundConfigs c) > 0 \<and> length (OutboundConfigs ov) = 1 then
          (let idx = findOutboundTag c (o_Tag (OutboundConfigs ov ! 0)) in
           if idx > - 1
           then c\<lparr>OutboundConfigs := (OutboundConfigs c)[nat idx := OutboundConfigs ov ! 0]\<rparr>
           else if Contains (ToLower U fn) ''tail''
           then c\<lparr>OutboundConfigs := OutboundConfigs c @ [OutboundConfigs ov ! 0]\<rparr>
           else c\<lparr>OutboundConfigs := OutboundConfigs ov @ OutboundConfigs c\<rparr>)
        else c\<lparr>OutboundConfigs := OutboundConfigs ov\<rparr>
      else c)"

definition Override ::
  "(string \<Rightarrow> string) \<Rightarrow> 'd Config \<Rightarrow> 'd Config \<Rightarrow> string \<Rightarrow> 'd Config" where
  "Override U c ov fn =
     override_outbounds U (override_inbounds (override_members c ov) ov) ov fn"

section \<open>The top-level compiler\<close>

text \<open>\<open>applyTransportConfig\<close> changes \<open>s\<close> in place; the model returns the changed record.\<close>

definition applyTransportConfig :: "'d StreamConfig \<Rightarrow> 'd TransportConfig \<Rightarrow> 'd StreamConfig" where
  "applyTransportConfig s t =
     (let s = (if TCPSettings s = None then s\<lparr>TCPSettings := TCPConfig t\<rparr> else s);
          s = (if KCPSettings s = None then s\<lparr>KCPSettings := KCPConfig t\<rparr> else s);
          s = (if WSSettings s = None then s\<lparr>WSSettings := WSConfig t\<rparr> else s);
          s = (if HTTPSettings s = None then s\<lparr>HTTPSettings := HTTPConfig t\<rparr> else s);
          s = (if DSSettings s = None then s\<lparr>DSSettings := DSConfig t\<rparr> else s)
      in s)"

definition emptyStreamConfig :: "'d StreamConfig" where
  "emptyStreamConfig =
     \<lparr>TCPSettings = None, KCPSettings = None, WSSettings = None, HTTPSettings = None,
      DSSettings = None, SocketSettings = None, stream_Others = None\<rparr>"

text \<open>
  One optional module: if the sub-document is there, build it, return its error, or
  append the message to the list.
\<close>

definition appendModule ::
  "'d option \<Rightarrow> ('d \<Rightarrow> failure + 'v) \<Rightarrow> ('v \<Rightarrow> 'v app) \<Rightarrow> 'v app list \<Rightarrow> failure + 'v app list" where
  "appendModule doc build msg apps =
     (case doc of
        None \<Rightarrow> Inr apps
      | Some d \<Rightarrow> andThen (build d) (\<lambda>r. Inr (apps @ [msg r])))"

definition logConfMsg :: "('d, 'v) env \<Rightarrow> 'd Config \<Rightarrow> 'v app" where
  "logConfMsg E c =
     (case LogConfig c of
        Some l \<Rightarrow> App_Log (LogConfig_Build E l)
      | None \<Rightarrow> App_Log (DefaultLogConfig E))"

definition build_App :: "('d, 'v) env \<Rightarrow> 'd Config \<Rightarrow> failure + 'v app list" where
  "build_App E c =
     andThen (appendModule (API c) (APIConfig_Build E) App_API
                [App_Dispatcher, App_InboundManager, App_OutboundManager]) (\<lambda>a.
     andThen (appendModule (Metrics c) (MetricsConfig_Build E) App_Metrics a) (\<lambda>a.
     andThen (case Stats c of
                None \<Rightarrow> Inr a
              | Some st \<Rightarrow> andThen (StatsConfig_Build st) (\<lambda>r. Inr (a @ [r]))) (\<lambda>a.
     andThen (Inr ([logConfMsg E c] @ a)) (\<lambda>a.
     andThen (appendModule (RouterConfig c) (RouterConfig_Build E) App_Router a) (\<lambda>a.
     andThen (appendModule (DNSConfig c)
                (\<lambda>d. case DNSConfig_Build E d of
                        Inl f \<Rightarrow> Inl (wrap FailedToParseDNS f)
                      | Inr r \<Rightarrow> Inr r) App_DNS a) (\<lambda>a.
     andThen (appendModule (Policy c) (PolicyConfig_Build E) App_Policy a) (\<lambda>a.
     andThen (appendModule (Reverse c) (ReverseConfig_Build E) App_Reverse a) (\<lambda>a.
     andThen (case FakeDNS c of
                None \<Rightarrow> Inr a
              | Some d \<Rightarrow> andThen (FakeDNSConfig_Build E d) (\<lambda>r. Inr ([App_FakeDNS r] @ a))) (\<lambda>a.
     andThen (appendModule (Observatory c) (ObservatoryConfig_Build E) App_Observatory a) (\<lambda>a.
     appendModule (Tun c) (TunConfig_Build E) App_Tun a))))))))))"

text \<open>
  The inbound entries: the deprecated single entry, the deprecated list, the list; then
  the deprecated top-level port, for the first entry only.
\<close>

definition collect_inbounds :: "'d Config \<Rightarrow> 'd InboundDetourConfig list" where
  "collect_inbounds c =
     (let inbounds = (case InboundConfig c of None \<Rightarrow> [] | Some i \<Rightarrow> [i]);
          inbounds = (case InboundDetours c of None \<Rightarrow> inbounds | Some l \<Rightarrow> inbounds @ l);
          inbounds = inbounds @ InboundConfigs c
      in case inbounds of
           [] \<Rightarrow> []
         | first # others \<Rightarrow>
             if i_PortList first = None \<and> Port c > 0
             then first\<lparr>i_PortList :=
                          Some \<lparr>Ranges = [\<lparr>From = ucast (Port c), To = ucast (Port c)\<rparr>]\<rparr>\<rparr>
                    # others
             else inbounds)"

definition collect_outbounds :: "'d Config \<Rightarrow> 'd OutboundDetourConfig list" where
  "collect_outbounds c =
     (let outbounds = (case OutboundConfig c of None \<Rightarrow> [] | Some ob \<Rightarrow> [ob]);
          outbounds = (case OutboundDetours c of None \<Rightarrow> outbounds | Some l \<Rightarrow> outbounds @ l)
      in outbounds @ OutboundConfigs c)"

definition overlay :: "'d TransportConfig option \<Rightarrow> 'd StreamConfig option \<Rightarrow> 'd StreamConfig option" where
  "overlay transport streamSetting =
     (case transport of
        None \<Rightarrow> streamSetting
      | Some t \<Rightarrow>
          Some (applyTransportConfig
                  (case streamSetting of None \<Rightarrow> emptyStreamConfig | Some s \<Rightarrow> s) t))"

fun inbound_loop ::
  "('d, 'v) env \<Rightarrow> 'd TransportConfig option \<Rightarrow> 'v InboundHandlerConfig list \<Rightarrow>
   'd InboundDetourConfig list \<Rightarrow> failure + 'v InboundHandlerConfig list" where
  "inbound_loop E transport acc [] = Inr acc"
| "inbound_loop E transport acc (rawInboundConfig # rest) =
     andThen (InboundDetourConfig_Build E
                (rawInboundConfig\<lparr>i_StreamSetting :=
                                     overlay transport (i_StreamSetting rawInboundConfig)\<rparr>))
       (\<lambda>ic. inbound_loop E transport (acc @ [ic]) rest)"

fun outbound_loop ::
  "('d, 'v) env \<Rightarrow> 'd TransportConfig option \<Rightarrow> 'v OutboundHandlerConfig list \<Rightarrow>
   'd OutboundDetourConfig list \<Rightarrow> failure + 'v OutboundHandlerConfig list" where
  "outbound_loop E transport acc [] = Inr acc"
| "outbound_loop E transport acc (rawOutboundConfig # rest) =
     andThen (OutboundDetourConfig_Build E
                (rawOutboundConfig\<lparr>o_StreamSetting :=
                                      overlay transport (o_StreamSetting rawOutboundConfig)\<rparr>))
       (\<lambda>oc. outbound_loop E transport (acc @ [oc]) rest)"

text \<open>
  \<open>Config.Build\<close>. \<open>PostProcessConfigureFile\<close> gets the document by pointer, so the model
  goes on with the document it returns. The overlay writes through the pointer of an
  entry's stream settings into the document; the model returns the compiled configuration
  and not the document.
\<close>

definition Config_Build :: "('d, 'v) env \<Rightarrow> 'd Config \<Rightarrow> failure + 'v core_Config" where
  "Config_Build E c0 =
     andThen (PostProcessConfigureFile E c0) (\<lambda>c.
     andThen (build_App E c) (\<lambda>apps.
     andThen (inbound_loop E (Transport c) [] (collect_inbounds c)) (\<lambda>inbounds.
     andThen (outbound_loop E (Transport c) [] (collect_outbounds c)) (\<lambda>outbounds.
     Inr \<lparr>App = apps, Inbound = inbounds, Outbound = outbounds\<rparr>))))"

section \<open>The module order, in the words of the specification\<close>

datatype module =
    M_Dispatcher | M_InboundManager | M_OutboundManager
  | M_API | M_Metrics | M_Stats | M_Log
  | M_Router | M_DNS | M_Policy | M_Reverse
  | M_FakeDNS | M_Observatory | M_Tun

fun module_of :: "'v app \<Rightarrow> module" where
  "module_of App_Dispatcher = M_Dispatcher"
| "module_of App_InboundManager = M_InboundManager"
| "module_of App_OutboundManager = M_OutboundManager"
| "module_of (App_API _) = M_API"
| "module_of (App_Metrics _) = M_Metrics"
| "module_of App_Stats = M_Stats"
| "module_of (App_Log _) = M_Log"
| "module_of (App_Router _) = M_Router"
| "module_of (App_DNS _) = M_DNS"
| "module_of (App_Policy _) = M_Policy"
| "module_of (App_Reverse _) = M_Reverse"
| "module_of (App_FakeDNS _) = M_FakeDNS"
| "module_of (App_Observatory _) = M_Observatory"
| "module_of (App_Tun _) = M_Tun"

definition configured :: "'a option \<Rightarrow> module \<Rightarrow> module list" where
  "configured doc m = (case doc of None \<Rightarrow> [] | Some _ \<Rightarrow> [m])"

text \<open>
  The order the specification gives: fake-DNS first if configured; then the log module;
  then dispatcher, inbound manager, outbound manager; then API, metrics, stats; then
  router, DNS, policy, reverse tunnel; then observatory, then TUN.
\<close>

definition spec_module_order :: "'d Config \<Rightarrow> module list" where
  "spec_module_order c =
     configured (FakeDNS c) M_FakeDNS
     @ [M_Log]
     @ [M_Dispatcher, M_InboundManager, M_OutboundManager]
     @ configured (API c) M_API @ configured (Metrics c) M_Metrics
     @ configured (Stats c) M_Stats
     @ configured (RouterConfig c) M_Router @ configured (DNSConfig c) M_DNS
     @ configured (Policy c) M_Policy @ configured (Reverse c) M_Reverse
     @ configured (Observatory c) M_Observatory
     @ configured (Tun c) M_Tun"

text \<open>
  The port capacity in the words of the specification: the sum of \<open>to - from + 1\<close> over
  the ranges.
\<close>

definition spec_capacity :: "PortRange list \<Rightarrow> int" where
  "spec_capacity rs = (\<Sum>pr\<leftarrow>rs. uint (To pr) - uint (From pr) + 1)"

section \<open>Zero values and a sample environment\<close>

text \<open>The Go zero values of the three document structs.\<close>

definition zeroInbound :: "'d InboundDetourConfig" where
  "zeroInbound =
     \<lparr>i_Protocol = [], i_PortList = None, i_ListenOn = None, i_Settings = None, i_Tag = [],
      i_Allocation = None, i_StreamSetting = None, i_DomainOverride = None,
      i_SniffingConfig = None\<rparr>"

definition zeroOutbound :: "'d OutboundDetourConfig" where
  "zeroOutbound =
     \<lparr>o_Protocol = [], o_SendThrough = None, o_Tag = [], o_Settings = None,
      o_StreamSetting = None, o_ProxySettings = None, o_MuxSettings = None\<rparr>"

definition zeroConfig :: "'d Config" where
  "zeroConfig =
     \<lparr>Port = 0, InboundConfig = None, OutboundConfig = None, InboundDetours = None,
      OutboundDetours = None, LogConfig = None, RouterConfig = None, DNSConfig = None,
      InboundConfigs = [], OutboundConfigs = [], Transport = None, Policy = None,
      API = None, Metrics = None, Stats = None, Reverse = None, FakeDNS = None,
      Observatory = None, Tun = None\<rparr>"

text \<open>
  A caller identity that is not ASCII: the UTF-8 bytes of \<open>ta\<close>, U+0130, \<open>l.json\<close>. Go's
  \<open>unicode.ToLower\<close> maps U+0130 to the letter \<open>i\<close>. \<open>sampleLower\<close> is a stand-in for
  the Unicode path of \<open>strings.ToLower\<close> that does the same on this string; the other
  sample inputs are ASCII, so it is never applied to them.
\<close>

definition dottedIdentity :: string where
  "dottedIdentity = ''ta'' @ [CHR 0xC4, CHR 0xB0] @ ''l.json''"

definition sampleLower :: "string \<Rightarrow> string" where
  "sampleLower s = (if s = dottedIdentity then ''tail.json'' else s)"

text \<open>
  An environment in which every builder of another file succeeds: sub-documents and built
  values are strings, the stream builder carries the dialer proxy over, and the proxy
  builder reports a transport-layer proxy when the settings have more than a tag.
\<close>

definition sampleEnv :: "(string, string) env" where
  "sampleEnv =
     \<lparr>Map_unicode_ToLower = sampleLower,
      PortList_Build = (\<lambda>pl. ''ports''),
      Address_Build = (\<lambda>a. ''address''),
      Address_String = (\<lambda>a. ''address''),
      StreamConfig_Build =
        (\<lambda>s. Inr \<lparr>istream_SocketSettings =
                     (case SocketSettings s of
                        None \<Rightarrow> None
                      | Some so \<Rightarrow>
                          Some \<lparr>DialerProxy = sock_DialerProxy so, isock_Others = None\<rparr>),
                   istream_Others = stream_Others s\<rparr>),
      ProxyConfig_Build =
        (\<lambda>p. Inr \<lparr>Tag = proxy_Tag p, TransportLayerProxy = (proxy_Others p \<noteq> None),
                   iproxy_Others = None\<rparr>),
      inbound_LoadWithID = (\<lambda>settings protocol. Inr (OtherConfig settings)),
      outbound_LoadWithID = (\<lambda>settings protocol. Inr (OtherConfig settings)),
      Buildable_Build = (\<lambda>raw. Inr ''settings''),
      PostProcessConfigureFile = Inr,
      APIConfig_Build = Inr,
      MetricsConfig_Build = Inr,
      LogConfig_Build = (\<lambda>d. d),
      DefaultLogConfig = ''default log'',
      RouterConfig_Build = Inr,
      DNSConfig_Build = Inr,
      PolicyConfig_Build = Inr,
      ReverseConfig_Build = Inr,
      FakeDNSConfig_Build = Inr,
      ObservatoryConfig_Build = Inr,
      TunConfig_Build = Inr\<rparr>"

text \<open>Sample documents, used to run the theorems below on concrete inputs.\<close>

definition inboundTagged :: "string \<Rightarrow> string \<Rightarrow> string InboundDetourConfig" where
  "inboundTagged tag protocol = zeroInbound\<lparr>i_Protocol := protocol, i_Tag := tag\<rparr>"

definition outboundTagged :: "string \<Rightarrow> string \<Rightarrow> string OutboundDetourConfig" where
  "outboundTagged tag protocol = zeroOutbound\<lparr>o_Protocol := protocol, o_Tag := tag\<rparr>"

definition sampleBase :: "string Config" where
  "sampleBase =
     zeroConfig
       \<lparr>InboundConfigs :=
          [inboundTagged ''in-a'' ''socks'', inboundTagged ''in-b'' ''http'',
           inboundTagged ''in-b'' ''vmess''],
        OutboundConfigs :=
          [outboundTagged ''out-a'' ''freedom'', outboundTagged ''out-b'' ''blackhole'']\<rparr>"

definition overrideWith ::
  "string InboundDetourConfig \<Rightarrow> string OutboundDetourConfig \<Rightarrow> string Config" where
  "overrideWith ib ob = zeroConfig\<lparr>InboundConfigs := [ib], OutboundConfigs := [ob]\<rparr>"

definition sampleStream :: "string StreamConfig" where
  "sampleStream = emptyStreamConfig\<lparr>TCPSettings := Some ''tcp of the entry''\<rparr>"

definition sampleTransport :: "string TransportConfig" where
  "sampleTransport =
     \<lparr>TCPConfig = Some ''tcp default'', KCPConfig = Some ''kcp default'', WSConfig = None,
      HTTPConfig = None, DSConfig = None\<rparr>"

definition conflictingOutbound :: "string OutboundDetourConfig" where
  "conflictingOutbound =
     zeroOutbound
       \<lparr>o_StreamSetting :=
          Some (emptyStreamConfig
                  \<lparr>SocketSettings := Some \<lparr>sock_DialerProxy = ''out-b'', sock_Others = None\<rparr>\<rparr>),
        o_ProxySettings := Some \<lparr>proxy_Tag = ''out-a'', proxy_Others = None\<rparr>\<rparr>"

definition chainedOutbound :: "string OutboundDetourConfig" where
  "chainedOutbound =
     zeroOutbound
       \<lparr>o_ProxySettings := Some \<lparr>proxy_Tag = ''out-a'', proxy_Others = Some ''transportLayer''\<rparr>\<rparr>"

definition socketInbound :: "string InboundDetourConfig" where
  "socketInbound =
     zeroInbound
       \<lparr>i_ListenOn := Some (DomainAddress ''/run/xray.sock''),
        i_Allocation :=
          Some \<lparr>alloc_Strategy = ''always'', alloc_Concurrency = None, alloc_RefreshMin = None\<rparr>\<rparr>"

definition sampleDocument :: "string Config" where
  "sampleDocument =
     zeroConfig\<lparr>LogConfig := Some ''log'', API := Some ''api'', FakeDNS := Some ''fake dns'',
                Tun := Some ''tun''\<rparr>"

section \<open>Basic facts\<close>

lemma andThen_simps [simp]:
  "andThen (Inl e) f = Inl e"
  "andThen (Inr v) f = f v"
  by (simp_all add: andThen_def)

lemma andThen_Inr: "andThen r f = Inr y \<longleftrightarrow> (\<exists>v. r = Inr v \<and> f v = Inr y)"
  by (cases r) simp_all

section \<open>The listen address and the port specification\<close>

lemma listenDS_empty: "listenDS (DomainAddress []) = Inl (Panic IndexOutOfRange)"
  by (simp add: listenDS_def IsDomain_def)

text \<open>
  Which combinations pass the first step: no listen address with a port specification;
  an IP or \<open>localhost\<close> with a port specification; a domain that starts with \<open>/\<close> or
  \<open>@\<close>, with or without a port specification.
\<close>

lemma listen_step_succeeds_iff:
  "(\<exists>r. listen_step E c rs = Inr r) \<longleftrightarrow>
     (i_ListenOn c = None \<and> i_PortList c \<noteq> None)
   \<or> (\<exists>a. i_ListenOn c = Some a \<and> (IsIP (Family a) \<or> a = DomainAddress ''localhost'')
          \<and> i_PortList c \<noteq> None)
   \<or> (\<exists>ch d. i_ListenOn c = Some (DomainAddress (ch # d)) \<and> (ch = CHR ''/'' \<or> ch = CHR ''@''))"
proof (cases "i_ListenOn c")
  case None
  then show ?thesis by (auto simp: listen_step_def split: option.splits)
next
  case (Some a)
  then show ?thesis
    by (cases a)
       (auto simp: listen_step_def listenDS_def listenIP_def IsIP_def IsDomain_def Let_def
             split: option.splits list.splits)
qed

lemma listen_step_socket_path:
  assumes "i_ListenOn c = Some (DomainAddress (ch # d))" and "ch = CHR ''/'' \<or> ch = CHR ''@''"
  shows "listen_step E c rs =
           Inr (rs\<lparr>rc_Listen := Some (Address_Build E (DomainAddress (ch # d))),
                   rc_PortList := (case i_PortList c of None \<Rightarrow> rc_PortList rs | Some pl \<Rightarrow> None)\<rparr>)"
  using assms
  by (auto simp: listen_step_def listenDS_def listenIP_def IsIP_def IsDomain_def Let_def
           split: option.splits)

lemma listen_step_no_address_no_port:
  "i_ListenOn c = None \<Longrightarrow> i_PortList c = None \<Longrightarrow> listen_step E c rs = Inl (Err AnyIPWithoutPort)"
  by (simp add: listen_step_def)

lemma listen_step_other_domain:
  assumes "i_ListenOn c = Some (DomainAddress (ch # d))" and "ch # d \<noteq> ''localhost''"
    and "ch \<noteq> CHR ''/''" and "ch \<noteq> CHR ''@''"
  shows "listen_step E c rs = Inl (Err (UnableToListenOnDomain (ch # d)))"
  using assms
  by (auto simp: listen_step_def listenDS_def listenIP_def IsIP_def IsDomain_def Let_def)

text \<open>
  Claim C2. The inbound compiler accepts exactly the three combinations above, rejects a
  missing address without ports, and is to reject any other domain name with the
  unsupported-address error. The lemmas above show this for every address but one: for a
  listen address that is the empty domain name the compiler does not return the
  unsupported-address error. \<open>Domain()[0]\<close> is evaluated first and panics with an index
  out of range, whatever the rest of the entry is.
\<close>

theorem C2_empty_domain_listen_address_panics:
  "InboundDetourConfig_Build E (c\<lparr>i_ListenOn := Some (DomainAddress [])\<rparr>)
     = Inl (Panic IndexOutOfRange)"
  by (simp add: InboundDetourConfig_Build_def listen_step_def listenDS_empty)

section \<open>The allocation strategy and the port capacity\<close>

lemma go_int_id: "0 \<le> x \<Longrightarrow> x < 2 ^ 63 \<Longrightarrow> go_int x = x"
  by (simp add: go_int_def signed_take_bit_int_eq_self)

lemma range_size:
  assumes "From pr \<le> To pr" and "uint (To pr) < 65536"
  shows "uint (To pr - From pr + 1) = uint (To pr) - uint (From pr) + 1"
proof -
  have le: "uint (From pr) \<le> uint (To pr)" using assms(1) by (simp add: word_le_def)
  then have d: "uint (To pr - From pr) = uint (To pr) - uint (From pr)"
    by (simp add: uint_sub_lem)
  have "uint (To pr) - uint (From pr) < 4294967295"
    using assms(2) le uint_ge_0 [of "From pr"] by linarith
  then have "uint (To pr - From pr) + uint (1 :: 32 word) < 2 ^ LENGTH(32)"
    using d by simp
  then have "uint (To pr - From pr + 1) = uint (To pr - From pr) + uint (1 :: 32 word)"
    by (simp only: uint_add_lem)
  with d show ?thesis by simp
qed

lemma range_size_bounds:
  assumes "From pr \<le> To pr" and "uint (To pr) < 65536"
  shows "0 < uint (To pr - From pr + 1) \<and> uint (To pr - From pr + 1) \<le> 65536"
proof -
  have le: "uint (From pr) \<le> uint (To pr)" using assms(1) by (simp add: word_le_def)
  show ?thesis
    unfolding range_size [OF assms] using le assms(2) uint_ge_0 [of "From pr"] by linarith
qed

text \<open>
  For ranges of ports (\<open>from \<le> to \<le> 65535\<close>) the loop computes the capacity of the
  specification; neither the \<open>uint32\<close> difference nor the 64-bit sum wraps.
\<close>

lemma portRange_loop_capacity:
  assumes "\<forall>pr\<in>set rs. From pr \<le> To pr \<and> uint (To pr) < 65536"
    and "0 \<le> acc" and "acc + 65536 * int (length rs) < 2 ^ 63"
  shows "portRange_loop acc rs = acc + spec_capacity rs"
  using assms
proof (induction rs arbitrary: acc)
  case Nil
  then show ?case by (simp add: spec_capacity_def)
next
  case (Cons pr rs)
  from Cons.prems(1) have wf: "From pr \<le> To pr" "uint (To pr) < 65536" by simp_all
  let ?n = "uint (To pr - From pr + 1)"
  from range_size_bounds [OF wf] have b: "0 < ?n" "?n \<le> 65536" by simp_all
  have lt: "acc + ?n + 65536 * int (length rs) < 2 ^ 63"
    using Cons.prems(3) b by simp
  have "0 \<le> int (length rs)" by simp
  then have lt': "acc + ?n < 2 ^ 63" using lt by linarith
  have g: "go_int (acc + ?n) = acc + ?n"
    using Cons.prems(2) b lt' by (intro go_int_id) linarith+
  have "portRange_loop (acc + ?n) rs = acc + ?n + spec_capacity rs"
    using Cons.prems(1,2) b lt by (intro Cons.IH) auto
  then show ?case
    using g range_size [OF wf] by (simp add: spec_capacity_def)
qed

text \<open>With the strategy spelled \<open>random\<close> the step fails exactly when \<open>C \<ge> N\<close>.\<close>

lemma allocation_step_random:
  assumes "i_Allocation c = Some al" and "alloc_Strategy al = ''random''"
    and "alloc_Concurrency al = Some k" and "i_PortList c = Some pl"
  shows "allocation_step E c rs =
           (if uint k \<ge> portRange_loop 0 (Ranges pl)
            then Inl (Err (NotEnoughPorts (uint k) (Ranges pl)))
            else Inr (rs\<lparr>rc_AllocationStrategy :=
                          Some \<lparr>as_Type = AllocationStrategy_Random, as_Concurrency = Some k,
                                as_Refresh = alloc_RefreshMin al\<rparr>\<rparr>))"
  using assms
  by (simp add: allocation_step_def InboundDetourAllocationConfig_Build_def allocation_type_def
      ToLower_def isASCII_def lower_char_def)

text \<open>
  With any other spelling that lower-cases to \<open>random\<close> the comparison with the capacity
  is skipped, and the strategy that is built is still the random one, with its
  concurrency.
\<close>

lemma allocation_step_other_spelling:
  assumes "i_Allocation c = Some al" and "alloc_Strategy al \<noteq> ''random''"
    and "ToLower (Map_unicode_ToLower E) (alloc_Strategy al) = ''random''"
    and "i_PortList c = Some pl"
  shows "allocation_step E c rs =
           Inr (rs\<lparr>rc_AllocationStrategy :=
                     Some \<lparr>as_Type = AllocationStrategy_Random,
                           as_Concurrency = alloc_Concurrency al,
                           as_Refresh = alloc_RefreshMin al\<rparr>\<rparr>)"
  using assms
  by (simp add: allocation_step_def InboundDetourAllocationConfig_Build_def allocation_type_def
       split: option.splits)

text \<open>
  Claim C1. For a strategy name that matches \<open>random\<close> without regard to case and a
  concurrency \<open>C\<close>, the compiler is to fail with the insufficient-ports error exactly
  when \<open>C \<ge> N\<close>. The strategy builder lower-cases the name, the capacity check compares
  it with \<open>"random"\<close> as it is written. For the strategy \<open>Random\<close>, concurrency 5 and the
  single port 1000 (capacity 1) the compiler succeeds and returns a random allocation
  strategy with concurrency 5; the same entry with the name \<open>random\<close> fails with the
  insufficient-ports error.
\<close>

theorem C1_mixed_case_random_is_not_checked:
  "InboundDetourConfig_Build sampleEnv
     (zeroInbound\<lparr>i_PortList := Some \<lparr>Ranges = [\<lparr>From = 1000, To = 1000\<rparr>]\<rparr>,
                  i_Allocation := Some \<lparr>alloc_Strategy = ''Random'', alloc_Concurrency = Some 5,
                                         alloc_RefreshMin = None\<rparr>\<rparr>)
   = Inr \<lparr>ih_Tag = [],
          ih_ReceiverSettings =
            emptyReceiverConfig
              \<lparr>rc_PortList := Some ''ports'',
               rc_AllocationStrategy :=
                 Some \<lparr>as_Type = AllocationStrategy_Random, as_Concurrency = Some 5,
                       as_Refresh = None\<rparr>\<rparr>,
          ih_ProxySettings = ''settings''\<rparr>
   \<and> spec_capacity [\<lparr>From = 1000, To = 1000\<rparr>] = 1
   \<and> InboundDetourConfig_Build sampleEnv
       (zeroInbound\<lparr>i_PortList := Some \<lparr>Ranges = [\<lparr>From = 1000, To = 1000\<rparr>]\<rparr>,
                    i_Allocation := Some \<lparr>alloc_Strategy = ''random'', alloc_Concurrency = Some 5,
                                           alloc_RefreshMin = None\<rparr>\<rparr>)
     = Inl (Err (NotEnoughPorts 5 [\<lparr>From = 1000, To = 1000\<rparr>]))"
  by (simp add: InboundDetourConfig_Build_def zeroInbound_def listen_step_def sampleEnv_def
       allocation_step_def InboundDetourAllocationConfig_Build_def allocation_type_def
       ToLower_def isASCII_def lower_char_def go_int_def stream_step_def sniffing_step_def
       domainOverride_step_def settings_step_def emptyReceiverConfig_def spec_capacity_def)

text \<open>
  Claim C10. An inbound entry that listens on a domain-socket path (so that the first
  step passes without a port specification) and has an allocation config but no port
  specification does not get an error value back: the capacity loop dereferences the nil
  port list and the compiler panics.
\<close>

theorem C10_allocation_without_ports_panics:
  assumes "i_Allocation c = Some al" and "i_PortList c = None"
    and "i_ListenOn c = Some (DomainAddress d)"
    and "HasPrefix d ''/'' \<or> HasPrefix d ''@''"
  shows "InboundDetourConfig_Build E c = Inl (Panic NilDereference)"
proof -
  from assms(4) obtain ch r where d: "d = ch # r" "ch = CHR ''/'' \<or> ch = CHR ''@''"
    by (cases d) auto
  have "listen_step E c emptyReceiverConfig =
          Inr (emptyReceiverConfig\<lparr>rc_Listen := Some (Address_Build E (DomainAddress d))\<rparr>)"
    using listen_step_socket_path [of c ch r E emptyReceiverConfig] assms(2,3) d by simp
  then show ?thesis
    using assms(1,2) by (simp add: InboundDetourConfig_Build_def allocation_step_def)
qed

theorem C10_allocation_without_ports_panics_witness:
  "i_Allocation socketInbound \<noteq> None \<and> i_PortList socketInbound = None
   \<and> i_ListenOn socketInbound = Some (DomainAddress ''/run/xray.sock'')
   \<and> HasPrefix ''/run/xray.sock'' ''/''
   \<and> InboundDetourConfig_Build sampleEnv socketInbound = Inl (Panic NilDereference)"
proof -
  have a: "i_Allocation socketInbound =
             Some \<lparr>alloc_Strategy = ''always'', alloc_Concurrency = None, alloc_RefreshMin = None\<rparr>"
    and p: "i_PortList socketInbound = None"
    and l: "i_ListenOn socketInbound = Some (DomainAddress ''/run/xray.sock'')"
    by (simp_all add: socketInbound_def zeroInbound_def)
  have h: "HasPrefix ''/run/xray.sock'' ''/'' \<or> HasPrefix ''/run/xray.sock'' ''@''" by simp
  from C10_allocation_without_ports_panics [OF a p l h, of sampleEnv] a p l
  show ?thesis by simp
qed

section \<open>The outbound compiler: proxy chains\<close>

text \<open>
  Claim C3. An outbound entry whose proxy-chain settings have a non-empty tag and whose
  stream settings have socket settings with a non-empty dialer proxy fails with the
  conflict error; no other step of the compiler has run by then.
\<close>

theorem C3_chain_proxy_conflict:
  assumes "o_ProxySettings c = Some p" and "proxy_Tag p \<noteq> []"
    and "o_StreamSetting c = Some s" and "SocketSettings s = Some so"
    and "sock_DialerProxy so \<noteq> []"
  shows "OutboundDetourConfig_Build E c = Inl (Err ChainProxyConflict)"
  using assms by (simp add: OutboundDetourConfig_Build_def checkChainProxyConfig_def)

theorem C3_chain_proxy_conflict_witness:
  "(\<exists>p s so. o_ProxySettings conflictingOutbound = Some p \<and> proxy_Tag p \<noteq> []
        \<and> o_StreamSetting conflictingOutbound = Some s \<and> SocketSettings s = Some so
        \<and> sock_DialerProxy so \<noteq> [])
   \<and> OutboundDetourConfig_Build sampleEnv conflictingOutbound = Inl (Err ChainProxyConflict)"
proof -
  let ?so = "\<lparr>sock_DialerProxy = ''out-b'', sock_Others = None :: string option\<rparr>"
  let ?s = "emptyStreamConfig\<lparr>SocketSettings := Some ?so\<rparr>"
  let ?p = "\<lparr>proxy_Tag = ''out-a'', proxy_Others = None :: string option\<rparr>"
  have p: "o_ProxySettings conflictingOutbound = Some ?p"
    and s: "o_StreamSetting conflictingOutbound = Some ?s"
    by (simp_all add: conflictingOutbound_def zeroOutbound_def)
  have so: "SocketSettings ?s = Some ?so" by simp
  have t: "proxy_Tag ?p \<noteq> []" and d: "sock_DialerProxy ?so \<noteq> []" by simp_all
  from C3_chain_proxy_conflict [OF p t s so d, of sampleEnv] p t s so d
  show ?thesis by blast
qed

lemma mux_step_keeps:
  "mux_step c s = Inr s' \<Longrightarrow>
     sc_StreamSettings s' = sc_StreamSettings s \<and> sc_ProxySettings s' = sc_ProxySettings s"
  by (auto simp: mux_step_def split: option.splits sum.splits)

lemma outbound_settings_step_sender:
  "outbound_settings_step E c s = Inr out \<Longrightarrow> oh_SenderSettings out = s"
  by (auto simp: outbound_settings_step_def Let_def andThen_Inr split: sum.splits option.splits)

lemma setDialerProxy_tag:
  "\<exists>so. istream_SocketSettings (setDialerProxy st tag) = Some so \<and> DialerProxy so = tag"
  by (simp add: setDialerProxy_def split: option.splits)

lemma proxySettings_step_transport:
  assumes "proxySettings_step E c s = Inr s'" and "o_ProxySettings c = Some p"
    and "ProxyConfig_Build E p = Inr ps" and "TransportLayerProxy ps"
  shows "sc_ProxySettings s' = None
       \<and> sc_StreamSettings s' = Some (setDialerProxy (sc_StreamSettings s) (Tag ps))"
  using assms by (auto simp: proxySettings_step_def)

text \<open>
  Claim C4. If the proxy-chain settings are present and the proxy settings built from
  them declare a transport-layer proxy, then the sender settings of the handler that
  \<open>Build\<close> returns have stream settings with socket settings whose dialer proxy is the
  tag of the built proxy settings, and have no proxy settings.
\<close>

theorem C4_transport_layer_proxy:
  assumes "OutboundDetourConfig_Build E c = Inr out"
    and "o_ProxySettings c = Some p"
    and "ProxyConfig_Build E p = Inr ps"
    and "TransportLayerProxy ps"
  shows "sc_ProxySettings (oh_SenderSettings out) = None
       \<and> (\<exists>ss so. sc_StreamSettings (oh_SenderSettings out) = Some ss
                 \<and> istream_SocketSettings ss = Some so
                 \<and> DialerProxy so = Tag ps)"
proof -
  from assms(1) obtain s1 s2 s3 s4 where
    s3: "proxySettings_step E c s2 = Inr s3"
    and s4: "mux_step c s3 = Inr s4"
    and out: "outbound_settings_step E c s4 = Inr out"
    by (auto simp: OutboundDetourConfig_Build_def andThen_Inr split: option.splits)
  from proxySettings_step_transport [OF s3 assms(2,3,4)]
  have p3: "sc_ProxySettings s3 = None"
    and st3: "sc_StreamSettings s3 = Some (setDialerProxy (sc_StreamSettings s2) (Tag ps))"
    by simp_all
  from mux_step_keeps [OF s4]
  have k: "sc_StreamSettings s4 = sc_StreamSettings s3" "sc_ProxySettings s4 = sc_ProxySettings s3"
    by simp_all
  from outbound_settings_step_sender [OF out] have o: "oh_SenderSettings out = s4" .
  from setDialerProxy_tag [of "sc_StreamSettings s2" "Tag ps"]
  obtain so where
    "istream_SocketSettings (setDialerProxy (sc_StreamSettings s2) (Tag ps)) = Some so"
    "DialerProxy so = Tag ps"
    by blast
  with o k p3 st3 show ?thesis by simp
qed

theorem C4_transport_layer_proxy_witness:
  "\<exists>out p ps.
     OutboundDetourConfig_Build sampleEnv chainedOutbound = Inr out
   \<and> o_ProxySettings chainedOutbound = Some p
   \<and> ProxyConfig_Build sampleEnv p = Inr ps
   \<and> TransportLayerProxy ps \<and> Tag ps = ''out-a''
   \<and> sc_ProxySettings (oh_SenderSettings out) = None
   \<and> (\<exists>ss so. sc_StreamSettings (oh_SenderSettings out) = Some ss
             \<and> istream_SocketSettings ss = Some so
             \<and> DialerProxy so = Tag ps)"
proof -
  let ?p = "\<lparr>proxy_Tag = ''out-a'', proxy_Others = Some ''transportLayer''\<rparr>"
  let ?ps = "\<lparr>Tag = ''out-a'', TransportLayerProxy = True, iproxy_Others = None :: string option\<rparr>"
  let ?out =
    "\<lparr>oh_SenderSettings =
        \<lparr>sc_Via = None,
         sc_StreamSettings =
           Some \<lparr>istream_SocketSettings = Some \<lparr>DialerProxy = ''out-a'', isock_Others = None\<rparr>,
                 istream_Others = None\<rparr>,
         sc_ProxySettings = None, sc_MultiplexSettings = None\<rparr>,
      oh_Tag = [], oh_ProxySettings = ''settings''\<rparr>"
  have b: "OutboundDetourConfig_Build sampleEnv chainedOutbound = Inr ?out"
    by (simp add: OutboundDetourConfig_Build_def checkChainProxyConfig_def chainedOutbound_def
          zeroOutbound_def sendThrough_step_def outbound_stream_step_def proxySettings_step_def
          setDialerProxy_def mux_step_def outbound_settings_step_def emptySenderConfig_def
          sampleEnv_def)
  have p: "o_ProxySettings chainedOutbound = Some ?p"
    by (simp add: chainedOutbound_def zeroOutbound_def)
  have ps: "ProxyConfig_Build sampleEnv ?p = Inr ?ps" by (simp add: sampleEnv_def)
  have t: "TransportLayerProxy ?ps" and g: "Tag ?ps = ''out-a''" by simp_all
  from C4_transport_layer_proxy [OF b p ps t] b p ps t g show ?thesis by blast
qed

section \<open>The transport overlay\<close>

lemma apply_TCP:
  "TCPSettings (applyTransportConfig s t) =
     (case TCPSettings s of None \<Rightarrow> TCPConfig t | Some x \<Rightarrow> Some x)"
  by (simp add: applyTransportConfig_def Let_def split: option.splits)

lemma apply_KCP:
  "KCPSettings (applyTransportConfig s t) =
     (case KCPSettings s of None \<Rightarrow> KCPConfig t | Some x \<Rightarrow> Some x)"
  by (simp add: applyTransportConfig_def Let_def split: option.splits)

lemma apply_WS:
  "WSSettings (applyTransportConfig s t) =
     (case WSSettings s of None \<Rightarrow> WSConfig t | Some x \<Rightarrow> Some x)"
  by (simp add: applyTransportConfig_def Let_def split: option.splits)

lemma apply_HTTP:
  "HTTPSettings (applyTransportConfig s t) =
     (case HTTPSettings s of None \<Rightarrow> HTTPConfig t | Some x \<Rightarrow> Some x)"
  by (simp add: applyTransportConfig_def Let_def split: option.splits)

lemma apply_DS:
  "DSSettings (applyTransportConfig s t) =
     (case DSSettings s of None \<Rightarrow> DSConfig t | Some x \<Rightarrow> Some x)"
  by (simp add: applyTransportConfig_def Let_def split: option.splits)

lemma apply_Socket: "SocketSettings (applyTransportConfig s t) = SocketSettings s"
  by (simp add: applyTransportConfig_def Let_def)

lemma apply_Others: "stream_Others (applyTransportConfig s t) = stream_Others s"
  by (simp add: applyTransportConfig_def Let_def)

lemma apply_more: "StreamConfig.more (applyTransportConfig s t) = StreamConfig.more s"
  by (simp add: applyTransportConfig_def Let_def)

lemmas apply_fields =
  apply_TCP apply_KCP apply_WS apply_HTTP apply_DS apply_Socket apply_Others

lemma apply_idem:
  "applyTransportConfig (applyTransportConfig s t) t = applyTransportConfig s t"
  by (rule StreamConfig.equality) (simp_all add: apply_fields apply_more split: option.splits)

text \<open>
  Claim C9. The overlay is idempotent; each of the five per-transport fields that is set
  before the overlay is the same after it, each one that is unset is filled from the
  defaults, and the other fields of the stream settings are not touched.
\<close>

theorem C9_overlay_idempotent_nondestructive:
  "applyTransportConfig (applyTransportConfig s t) t = applyTransportConfig s t
   \<and> (TCPSettings s \<noteq> None \<longrightarrow> TCPSettings (applyTransportConfig s t) = TCPSettings s)
   \<and> (KCPSettings s \<noteq> None \<longrightarrow> KCPSettings (applyTransportConfig s t) = KCPSettings s)
   \<and> (WSSettings s \<noteq> None \<longrightarrow> WSSettings (applyTransportConfig s t) = WSSettings s)
   \<and> (HTTPSettings s \<noteq> None \<longrightarrow> HTTPSettings (applyTransportConfig s t) = HTTPSettings s)
   \<and> (DSSettings s \<noteq> None \<longrightarrow> DSSettings (applyTransportConfig s t) = DSSettings s)
   \<and> (TCPSettings s = None \<longrightarrow> TCPSettings (applyTransportConfig s t) = TCPConfig t)
   \<and> (KCPSettings s = None \<longrightarrow> KCPSettings (applyTransportConfig s t) = KCPConfig t)
   \<and> (WSSettings s = None \<longrightarrow> WSSettings (applyTransportConfig s t) = WSConfig t)
   \<and> (HTTPSettings s = None \<longrightarrow> HTTPSettings (applyTransportConfig s t) = HTTPConfig t)
   \<and> (DSSettings s = None \<longrightarrow> DSSettings (applyTransportConfig s t) = DSConfig t)
   \<and> SocketSettings (applyTransportConfig s t) = SocketSettings s
   \<and> stream_Others (applyTransportConfig s t) = stream_Others s"
  by (simp add: apply_idem apply_fields split: option.splits)

theorem C9_overlay_idempotent_nondestructive_witness:
  "TCPSettings sampleStream = Some ''tcp of the entry''
   \<and> KCPSettings sampleStream = None
   \<and> TCPConfig sampleTransport = Some ''tcp default''
   \<and> TCPSettings (applyTransportConfig sampleStream sampleTransport) = Some ''tcp of the entry''
   \<and> KCPSettings (applyTransportConfig sampleStream sampleTransport) = Some ''kcp default''
   \<and> applyTransportConfig (applyTransportConfig sampleStream sampleTransport) sampleTransport
       = applyTransportConfig sampleStream sampleTransport"
proof -
  have s: "TCPSettings sampleStream = Some ''tcp of the entry''" "KCPSettings sampleStream = None"
    by (simp_all add: sampleStream_def emptyStreamConfig_def)
  have t: "TCPConfig sampleTransport = Some ''tcp default''"
    "KCPConfig sampleTransport = Some ''kcp default''"
    by (simp_all add: sampleTransport_def)
  from C9_overlay_idempotent_nondestructive [of sampleStream sampleTransport] s t
  show ?thesis by simp
qed

section \<open>The override merger: one entry in the override list\<close>

lemma findInboundTag_loop_none:
  "\<forall>b\<in>set xs. i_Tag b \<noteq> tag \<Longrightarrow> findInboundTag_loop k xs tag = - 1"
  by (induction xs arbitrary: k) auto

lemma findInboundTag_loop_first:
  "\<forall>x\<in>set pre. i_Tag x \<noteq> tag \<Longrightarrow> i_Tag b = tag \<Longrightarrow>
   findInboundTag_loop k (pre @ b # post) tag = int (k + length pre)"
  by (induction pre arbitrary: k) auto

lemma findOutboundTag_loop_none:
  "\<forall>b\<in>set xs. o_Tag b \<noteq> tag \<Longrightarrow> findOutboundTag_loop k xs tag = - 1"
  by (induction xs arbitrary: k) auto

lemma findOutboundTag_loop_first:
  "\<forall>x\<in>set pre. o_Tag x \<noteq> tag \<Longrightarrow> o_Tag b = tag \<Longrightarrow>
   findOutboundTag_loop k (pre @ b # post) tag = int (k + length pre)"
  by (induction pre arbitrary: k) auto

lemma override_members_lists:
  "InboundConfigs (override_members c ov) = InboundConfigs c"
  "OutboundConfigs (override_members c ov) = OutboundConfigs c"
  by (simp_all add: override_members_def)

lemma override_inbounds_outbound:
  "OutboundConfigs (override_inbounds c ov) = OutboundConfigs c"
  by (simp add: override_inbounds_def Let_def)

lemma override_outbounds_inbound:
  "InboundConfigs (override_outbounds U c ov fn) = InboundConfigs c"
  by (simp add: override_outbounds_def Let_def)

lemma override_inbounds_replace:
  assumes "InboundConfigs ov = [e]" and "InboundConfigs c = pre @ b # post"
    and "i_Tag b = i_Tag e" and "\<forall>x\<in>set pre. i_Tag x \<noteq> i_Tag e"
  shows "InboundConfigs (override_inbounds c ov) = pre @ e # post"
  using assms findInboundTag_loop_first [of pre "i_Tag e" b 0 post]
  by (simp add: override_inbounds_def findInboundTag_def Let_def)

lemma override_inbounds_append:
  assumes "InboundConfigs ov = [e]" and "\<forall>x\<in>set (InboundConfigs c). i_Tag x \<noteq> i_Tag e"
  shows "InboundConfigs (override_inbounds c ov) = InboundConfigs c @ [e]"
  using assms findInboundTag_loop_none [of "InboundConfigs c" "i_Tag e" 0]
  by (simp add: override_inbounds_def findInboundTag_def Let_def)

lemma override_outbounds_replace:
  assumes "OutboundConfigs ov = [e]" and "OutboundConfigs c = pre @ b # post"
    and "o_Tag b = o_Tag e" and "\<forall>x\<in>set pre. o_Tag x \<noteq> o_Tag e"
  shows "OutboundConfigs (override_outbounds U c ov fn) = pre @ e # post"
  using assms findOutboundTag_loop_first [of pre "o_Tag e" b 0 post]
  by (simp add: override_outbounds_def findOutboundTag_def Let_def)

lemma override_outbounds_new:
  assumes "OutboundConfigs ov = [e]" and "\<forall>x\<in>set (OutboundConfigs c). o_Tag x \<noteq> o_Tag e"
  shows "OutboundConfigs (override_outbounds U c ov fn) =
           (if Contains (ToLower U fn) ''tail'' then OutboundConfigs c @ [e]
            else e # OutboundConfigs c)"
  using assms findOutboundTag_loop_none [of "OutboundConfigs c" "o_Tag e" 0]
  by (simp add: override_outbounds_def findOutboundTag_def Let_def)

lemma Override_InboundConfigs:
  "InboundConfigs (Override U c ov fn) =
     InboundConfigs (override_inbounds (override_members c ov) ov)"
  by (simp add: Override_def override_outbounds_inbound)

lemma Override_OutboundConfigs:
  "OutboundConfigs (Override U c ov fn) =
     OutboundConfigs
       (override_outbounds U (override_inbounds (override_members c ov) ov) ov fn)"
  by (simp add: Override_def)

lemma Override_inbound_replace:
  assumes "InboundConfigs ov = [e]" and "InboundConfigs c = pre @ b # post"
    and "i_Tag b = i_Tag e" and "\<forall>x\<in>set pre. i_Tag x \<noteq> i_Tag e"
  shows "InboundConfigs (Override U c ov fn) = pre @ e # post"
  unfolding Override_InboundConfigs
  by (rule override_inbounds_replace [OF assms(1) _ assms(3,4)])
     (simp add: override_members_lists assms(2))

lemma Override_inbound_append:
  assumes "InboundConfigs ov = [e]" and "\<forall>x\<in>set (InboundConfigs c). i_Tag x \<noteq> i_Tag e"
  shows "InboundConfigs (Override U c ov fn) = InboundConfigs c @ [e]"
  unfolding Override_InboundConfigs
  using override_inbounds_append [of ov e "override_members c ov"] assms
  by (simp add: override_members_lists)

lemma Override_outbound_replace:
  assumes "OutboundConfigs ov = [e]" and "OutboundConfigs c = pre @ b # post"
    and "o_Tag b = o_Tag e" and "\<forall>x\<in>set pre. o_Tag x \<noteq> o_Tag e"
  shows "OutboundConfigs (Override U c ov fn) = pre @ e # post"
  unfolding Override_OutboundConfigs
  by (rule override_outbounds_replace [OF assms(1) _ assms(3,4)])
     (simp add: override_members_lists override_inbounds_outbound assms(2))

lemma Override_outbound_new:
  assumes "OutboundConfigs ov = [e]" and "\<forall>x\<in>set (OutboundConfigs c). o_Tag x \<noteq> o_Tag e"
  shows "OutboundConfigs (Override U c ov fn) =
           (if Contains (ToLower U fn) ''tail'' then OutboundConfigs c @ [e]
            else e # OutboundConfigs c)"
  unfolding Override_OutboundConfigs
  using override_outbounds_new
          [where ov = ov and e = e and c = "override_inbounds (override_members c ov) ov"
             and U = U and fn = fn] assms
  by (simp add: override_members_lists override_inbounds_outbound)

lemma replaced_in_place:
  "length (pre @ e # post) = length (pre @ b # post)
   \<and> (pre @ e # post) ! length pre = e
   \<and> (\<forall>j < length (pre @ b # post). j \<noteq> length pre \<longrightarrow>
         (pre @ e # post) ! j = (pre @ b # post) ! j)"
  by (auto simp: nth_append nth_Cons split: nat.splits)

text \<open>
  Claim C5. If the override has exactly one inbound entry and some base inbound entry has
  its tag, the base list splits at the first such entry, and after \<open>Override\<close> the list is
  the same with the override's entry at that place: same length, the entry at the index
  of the first match, every other index unchanged. The same holds for the outbound list.
\<close>

theorem C5_override_replaces_in_place:
  "(InboundConfigs ov = [e] \<and> (\<exists>b\<in>set (InboundConfigs c). i_Tag b = i_Tag e) \<longrightarrow>
      (\<exists>pre b post.
         InboundConfigs c = pre @ b # post \<and> i_Tag b = i_Tag e
         \<and> (\<forall>x\<in>set pre. i_Tag x \<noteq> i_Tag e)
         \<and> InboundConfigs (Override U c ov fn) = pre @ e # post
         \<and> length (InboundConfigs (Override U c ov fn)) = length (InboundConfigs c)
         \<and> InboundConfigs (Override U c ov fn) ! length pre = e
         \<and> (\<forall>j < length (InboundConfigs c). j \<noteq> length pre \<longrightarrow>
               InboundConfigs (Override U c ov fn) ! j = InboundConfigs c ! j)))
 \<and> (OutboundConfigs ov = [e'] \<and> (\<exists>b\<in>set (OutboundConfigs c). o_Tag b = o_Tag e') \<longrightarrow>
      (\<exists>pre b post.
         OutboundConfigs c = pre @ b # post \<and> o_Tag b = o_Tag e'
         \<and> (\<forall>x\<in>set pre. o_Tag x \<noteq> o_Tag e')
         \<and> OutboundConfigs (Override U c ov fn) = pre @ e' # post
         \<and> length (OutboundConfigs (Override U c ov fn)) = length (OutboundConfigs c)
         \<and> OutboundConfigs (Override U c ov fn) ! length pre = e'
         \<and> (\<forall>j < length (OutboundConfigs c). j \<noteq> length pre \<longrightarrow>
               OutboundConfigs (Override U c ov fn) ! j = OutboundConfigs c ! j)))"
proof (intro conjI impI)
  assume a: "InboundConfigs ov = [e] \<and> (\<exists>b\<in>set (InboundConfigs c). i_Tag b = i_Tag e)"
  then obtain pre b post where s: "InboundConfigs c = pre @ b # post" "i_Tag b = i_Tag e"
      "\<forall>x\<in>set pre. i_Tag x \<noteq> i_Tag e"
    using split_list_first_prop [of "InboundConfigs c" "\<lambda>b. i_Tag b = i_Tag e"] by blast
  have r: "InboundConfigs (Override U c ov fn) = pre @ e # post"
    using a s Override_inbound_replace
                [where ov = ov and e = e and c = c and pre = pre and b = b and post = post
                   and U = U and fn = fn] by blast
  show "\<exists>pre b post.
         InboundConfigs c = pre @ b # post \<and> i_Tag b = i_Tag e
         \<and> (\<forall>x\<in>set pre. i_Tag x \<noteq> i_Tag e)
         \<and> InboundConfigs (Override U c ov fn) = pre @ e # post
         \<and> length (InboundConfigs (Override U c ov fn)) = length (InboundConfigs c)
         \<and> InboundConfigs (Override U c ov fn) ! length pre = e
         \<and> (\<forall>j < length (InboundConfigs c). j \<noteq> length pre \<longrightarrow>
               InboundConfigs (Override U c ov fn) ! j = InboundConfigs c ! j)"
    apply (rule exI [of _ pre], rule exI [of _ b], rule exI [of _ post])
    unfolding r s(1) using s(2,3) replaced_in_place [of pre e post b] by blast
next
  assume a: "OutboundConfigs ov = [e'] \<and> (\<exists>b\<in>set (OutboundConfigs c). o_Tag b = o_Tag e')"
  then obtain pre b post where s: "OutboundConfigs c = pre @ b # post" "o_Tag b = o_Tag e'"
      "\<forall>x\<in>set pre. o_Tag x \<noteq> o_Tag e'"
    using split_list_first_prop [of "OutboundConfigs c" "\<lambda>b. o_Tag b = o_Tag e'"] by blast
  have r: "OutboundConfigs (Override U c ov fn) = pre @ e' # post"
    using a s Override_outbound_replace
                [where ov = ov and e = e' and c = c and pre = pre and b = b and post = post
                   and U = U and fn = fn] by blast
  show "\<exists>pre b post.
         OutboundConfigs c = pre @ b # post \<and> o_Tag b = o_Tag e'
         \<and> (\<forall>x\<in>set pre. o_Tag x \<noteq> o_Tag e')
         \<and> OutboundConfigs (Override U c ov fn) = pre @ e' # post
         \<and> length (OutboundConfigs (Override U c ov fn)) = length (OutboundConfigs c)
         \<and> OutboundConfigs (Override U c ov fn) ! length pre = e'
         \<and> (\<forall>j < length (OutboundConfigs c). j \<noteq> length pre \<longrightarrow>
               OutboundConfigs (Override U c ov fn) ! j = OutboundConfigs c ! j)"
    apply (rule exI [of _ pre], rule exI [of _ b], rule exI [of _ post])
    unfolding r s(1) using s(2,3) replaced_in_place [of pre e' post b] by blast
qed

theorem C5_override_replaces_in_place_witness:
  "InboundConfigs (overrideWith (inboundTagged ''in-b'' ''trojan'') (outboundTagged ''out-b'' ''vless''))
     = [inboundTagged ''in-b'' ''trojan'']
   \<and> (\<exists>b\<in>set (InboundConfigs sampleBase). i_Tag b = i_Tag (inboundTagged ''in-b'' ''trojan''))
   \<and> OutboundConfigs (overrideWith (inboundTagged ''in-b'' ''trojan'') (outboundTagged ''out-b'' ''vless''))
     = [outboundTagged ''out-b'' ''vless'']
   \<and> (\<exists>b\<in>set (OutboundConfigs sampleBase). o_Tag b = o_Tag (outboundTagged ''out-b'' ''vless''))
   \<and> length (InboundConfigs (Override sampleLower sampleBase
        (overrideWith (inboundTagged ''in-b'' ''trojan'') (outboundTagged ''out-b'' ''vless''))
        ''override.json'')) = length (InboundConfigs sampleBase)
   \<and> length (OutboundConfigs (Override sampleLower sampleBase
        (overrideWith (inboundTagged ''in-b'' ''trojan'') (outboundTagged ''out-b'' ''vless''))
        ''override.json'')) = length (OutboundConfigs sampleBase)"
proof -
  let ?e = "inboundTagged ''in-b'' ''trojan''"
  let ?e' = "outboundTagged ''out-b'' ''vless''"
  let ?ov = "overrideWith ?e ?e'"
  have i: "InboundConfigs ?ov = [?e]" and o: "OutboundConfigs ?ov = [?e']"
    by (simp_all add: overrideWith_def zeroConfig_def)
  have ib: "\<exists>b\<in>set (InboundConfigs sampleBase). i_Tag b = i_Tag ?e"
    by (simp add: sampleBase_def zeroConfig_def inboundTagged_def zeroInbound_def)
  have ob: "\<exists>b\<in>set (OutboundConfigs sampleBase). o_Tag b = o_Tag ?e'"
    by (simp add: sampleBase_def zeroConfig_def outboundTagged_def zeroOutbound_def)
  from C5_override_replaces_in_place
         [where ov = ?ov and e = ?e and c = sampleBase and e' = ?e' and U = sampleLower
            and fn = "''override.json''"] i o ib ob
  show ?thesis by blast
qed

text \<open>
  Claim C6. If the override has exactly one inbound entry and no base inbound entry has
  its tag, the entry is appended to the base list. If the override has exactly one
  outbound entry and no base outbound entry has its tag, the entry is appended when the
  lower-cased caller identity contains \<open>tail\<close> and is put in front otherwise. The base
  entries keep their order in all three cases. (For an empty base list the override list
  takes its place, which is the same list.) The caller identity is lower-cased by
  \<open>strings.ToLower\<close>: by its ASCII path if every byte is ASCII, by its Unicode path \<open>U\<close>
  otherwise, whatever that path does.
\<close>

theorem C6_override_appends_or_prepends:
  "(InboundConfigs ov = [e] \<and> (\<forall>b\<in>set (InboundConfigs c). i_Tag b \<noteq> i_Tag e) \<longrightarrow>
      InboundConfigs (Override U c ov fn) = InboundConfigs c @ [e])
 \<and> (OutboundConfigs ov = [e'] \<and> (\<forall>b\<in>set (OutboundConfigs c). o_Tag b \<noteq> o_Tag e') \<longrightarrow>
      (Contains (ToLower U fn) ''tail'' \<longrightarrow>
         OutboundConfigs (Override U c ov fn) = OutboundConfigs c @ [e'])
    \<and> (\<not> Contains (ToLower U fn) ''tail'' \<longrightarrow>
         OutboundConfigs (Override U c ov fn) = e' # OutboundConfigs c))"
  using Override_inbound_append [where ov = ov and e = e and c = c and U = U and fn = fn]
        Override_outbound_new [where ov = ov and e = e' and c = c and U = U and fn = fn]
  by auto

theorem C6_override_appends_or_prepends_witness:
  "InboundConfigs sampleBase \<noteq> [] \<and> OutboundConfigs sampleBase \<noteq> []
   \<and> i_Tag (inboundTagged ''in-c'' ''trojan'') \<notin> set (map i_Tag (InboundConfigs sampleBase))
   \<and> o_Tag (outboundTagged ''out-c'' ''vless'') \<notin> set (map o_Tag (OutboundConfigs sampleBase))
   \<and> Contains (ToLower sampleLower ''90_Tail.json'') ''tail''
   \<and> \<not> Contains (ToLower sampleLower ''10_head.json'') ''tail''
   \<and> InboundConfigs (Override sampleLower sampleBase
        (overrideWith (inboundTagged ''in-c'' ''trojan'') (outboundTagged ''out-c'' ''vless''))
        ''90_Tail.json'')
       = InboundConfigs sampleBase @ [inboundTagged ''in-c'' ''trojan'']
   \<and> OutboundConfigs (Override sampleLower sampleBase
        (overrideWith (inboundTagged ''in-c'' ''trojan'') (outboundTagged ''out-c'' ''vless''))
        ''90_Tail.json'')
       = OutboundConfigs sampleBase @ [outboundTagged ''out-c'' ''vless'']
   \<and> OutboundConfigs (Override sampleLower sampleBase
        (overrideWith (inboundTagged ''in-c'' ''trojan'') (outboundTagged ''out-c'' ''vless''))
        ''10_head.json'')
       = outboundTagged ''out-c'' ''vless'' # OutboundConfigs sampleBase
   \<and> \<not> isASCII dottedIdentity
   \<and> Contains (ToLower sampleLower dottedIdentity) ''tail''
   \<and> OutboundConfigs (Override sampleLower sampleBase
        (overrideWith (inboundTagged ''in-c'' ''trojan'') (outboundTagged ''out-c'' ''vless''))
        dottedIdentity)
       = OutboundConfigs sampleBase @ [outboundTagged ''out-c'' ''vless'']"
proof -
  let ?e = "inboundTagged ''in-c'' ''trojan''"
  let ?e' = "outboundTagged ''out-c'' ''vless''"
  let ?ov = "overrideWith ?e ?e'"
  have i: "InboundConfigs ?ov = [?e]" and o: "OutboundConfigs ?ov = [?e']"
    by (simp_all add: overrideWith_def zeroConfig_def)
  have ne: "InboundConfigs sampleBase \<noteq> []" "OutboundConfigs sampleBase \<noteq> []"
    by (simp_all add: sampleBase_def zeroConfig_def)
  have ib: "\<forall>b\<in>set (InboundConfigs sampleBase). i_Tag b \<noteq> i_Tag ?e"
    by (simp add: sampleBase_def zeroConfig_def inboundTagged_def zeroInbound_def)
  have ob: "\<forall>b\<in>set (OutboundConfigs sampleBase). o_Tag b \<noteq> o_Tag ?e'"
    by (simp add: sampleBase_def zeroConfig_def outboundTagged_def zeroOutbound_def)
  have t: "Contains (ToLower sampleLower ''90_Tail.json'') ''tail''"
    by (simp add: ToLower_def isASCII_def lower_char_def)
  have h: "\<not> Contains (ToLower sampleLower ''10_head.json'') ''tail''"
    by (simp add: ToLower_def isASCII_def lower_char_def)
  have r1: "InboundConfigs (Override sampleLower sampleBase ?ov ''90_Tail.json'')
              = InboundConfigs sampleBase @ [?e]"
    and r2: "OutboundConfigs (Override sampleLower sampleBase ?ov ''90_Tail.json'')
              = OutboundConfigs sampleBase @ [?e']"
    using C6_override_appends_or_prepends
         [where ov = ?ov and e = ?e and c = sampleBase and e' = ?e' and U = sampleLower
            and fn = "''90_Tail.json''"]
       i o ib ob t by blast+
  have r3: "OutboundConfigs (Override sampleLower sampleBase ?ov ''10_head.json'')
              = ?e' # OutboundConfigs sampleBase"
    using C6_override_appends_or_prepends
         [where ov = ?ov and e = ?e and c = sampleBase and e' = ?e' and U = sampleLower
            and fn = "''10_head.json''"]
       o ob h by blast
  have na: "\<not> isASCII dottedIdentity"
    by (simp add: isASCII_def dottedIdentity_def)
  have u: "Contains (ToLower sampleLower dottedIdentity) ''tail''"
    using na by (simp add: ToLower_def sampleLower_def)
  have r4: "OutboundConfigs (Override sampleLower sampleBase ?ov dottedIdentity)
              = OutboundConfigs sampleBase @ [?e']"
    using C6_override_appends_or_prepends
         [where ov = ?ov and e = ?e and c = sampleBase and e' = ?e' and U = sampleLower
            and fn = dottedIdentity]
       o ob u by blast
  have ib': "i_Tag ?e \<notin> set (map i_Tag (InboundConfigs sampleBase))"
    using ib by auto
  have ob': "o_Tag ?e' \<notin> set (map o_Tag (OutboundConfigs sampleBase))"
    using ob by auto
  show ?thesis
    by (intro conjI) (rule ne ib' ob' t h r1 r2 r3 na u r4)+
qed

text \<open>
  Claim C7 says that an override with one inbound entry whose tag is empty never replaces
  a base entry and is always appended, also when a base entry has an empty tag. The
  lookup compares tags and has no case for the empty tag: a base list with one
  empty-tagged entry, overridden by one empty-tagged entry, has that entry replaced and
  is not made longer.
\<close>

theorem C7_empty_tag_replaces_empty_tagged_entry:
  "InboundConfigs (Override sampleLower (zeroConfig\<lparr>InboundConfigs := [inboundTagged [] ''socks'']\<rparr>)
                            (zeroConfig\<lparr>InboundConfigs := [inboundTagged [] ''http'']\<rparr>)
                            ''override.json'')
     = [inboundTagged [] ''http'']
   \<and> InboundConfigs (Override sampleLower (zeroConfig\<lparr>InboundConfigs := [inboundTagged [] ''socks'']\<rparr>)
                              (zeroConfig\<lparr>InboundConfigs := [inboundTagged [] ''http'']\<rparr>)
                              ''override.json'')
     \<noteq> [inboundTagged [] ''socks''] @ [inboundTagged [] ''http'']"
  by (simp add: Override_def override_members_def override_inbounds_def override_outbounds_def
        findInboundTag_def zeroConfig_def inboundTagged_def zeroInbound_def)

text \<open>
  Claim C7, amended. An override with one inbound entry whose tag is empty is appended
  when no base entry has an empty tag; when some base entry has an empty tag, the first
  such entry is replaced in place.
\<close>

theorem C7_empty_tag_override:
  assumes "InboundConfigs ov = [e]" and "i_Tag e = []"
  shows "((\<forall>b\<in>set (InboundConfigs c). i_Tag b \<noteq> []) \<longrightarrow>
            InboundConfigs (Override U c ov fn) = InboundConfigs c @ [e])
       \<and> (\<forall>pre b post.
            InboundConfigs c = pre @ b # post \<and> i_Tag b = [] \<and> (\<forall>x\<in>set pre. i_Tag x \<noteq> [])
            \<longrightarrow> InboundConfigs (Override U c ov fn) = pre @ e # post)"
  using Override_inbound_append [where ov = ov and e = e and c = c and U = U and fn = fn]
        Override_inbound_replace [where ov = ov and e = e and c = c and U = U and fn = fn]
        assms
  by auto

theorem C7_empty_tag_override_witness:
  "InboundConfigs (overrideWith (inboundTagged [] ''http'') (outboundTagged [] ''freedom''))
     = [inboundTagged [] ''http'']
   \<and> i_Tag (inboundTagged [] ''http'') = []
   \<and> [] \<notin> set (map i_Tag (InboundConfigs sampleBase))
   \<and> InboundConfigs (Override sampleLower sampleBase
        (overrideWith (inboundTagged [] ''http'') (outboundTagged [] ''freedom'')) ''override.json'')
       = InboundConfigs sampleBase @ [inboundTagged [] ''http'']
   \<and> InboundConfigs (Override sampleLower
        (zeroConfig\<lparr>InboundConfigs :=
                      [inboundTagged ''in-a'' ''socks'', inboundTagged [] ''vmess'',
                       inboundTagged [] ''vless'']\<rparr>)
        (overrideWith (inboundTagged [] ''http'') (outboundTagged [] ''freedom'')) ''override.json'')
       = [inboundTagged ''in-a'' ''socks''] @ inboundTagged [] ''http'' # [inboundTagged [] ''vless'']"
proof -
  let ?e = "inboundTagged [] ''http''"
  let ?ov = "overrideWith ?e (outboundTagged [] ''freedom'')"
  let ?c = "zeroConfig\<lparr>InboundConfigs :=
                      [inboundTagged ''in-a'' ''socks'', inboundTagged [] ''vmess'',
                       inboundTagged [] ''vless'']\<rparr> :: string Config"
  have i: "InboundConfigs ?ov = [?e]" by (simp add: overrideWith_def zeroConfig_def)
  have t: "i_Tag ?e = []" by (simp add: inboundTagged_def zeroInbound_def)
  have nb: "\<forall>b\<in>set (InboundConfigs sampleBase). i_Tag b \<noteq> []"
    by (simp add: sampleBase_def zeroConfig_def inboundTagged_def zeroInbound_def)
  have sp: "InboundConfigs ?c = [inboundTagged ''in-a'' ''socks''] @ inboundTagged [] ''vmess''
              # [inboundTagged [] ''vless'']
            \<and> i_Tag (inboundTagged [] ''vmess'') = []
            \<and> (\<forall>x\<in>set [inboundTagged ''in-a'' ''socks'']. i_Tag x \<noteq> [])"
    by (simp add: zeroConfig_def inboundTagged_def zeroInbound_def)
  have r1: "InboundConfigs (Override sampleLower sampleBase ?ov ''override.json'')
              = InboundConfigs sampleBase @ [?e]"
    using C7_empty_tag_override
            [OF i t, where c = sampleBase and U = sampleLower and fn = "''override.json''"] nb
    by blast
  have r2: "InboundConfigs (Override sampleLower ?c ?ov ''override.json'')
              = [inboundTagged ''in-a'' ''socks''] @ ?e # [inboundTagged [] ''vless'']"
    using C7_empty_tag_override
            [OF i t, where c = ?c and U = sampleLower and fn = "''override.json''"] sp
    by blast
  have nb': "[] \<notin> set (map i_Tag (InboundConfigs sampleBase))"
    using nb by auto
  show ?thesis
    by (intro conjI) (rule i t nb' r1 r2)+
qed

section \<open>The order of the modules\<close>

lemma appendModule_modules:
  assumes "appendModule doc build msg apps = Inr a" and "\<And>r. module_of (msg r) = m"
  shows "map module_of a = map module_of apps @ configured doc m"
  using assms by (auto simp: appendModule_def configured_def andThen_Inr split: option.splits)

lemma logConfMsg_module: "module_of (logConfMsg E c) = M_Log"
  by (simp add: logConfMsg_def split: option.splits)

text \<open>
  The list that \<open>build_App\<close> returns: what was put in front of the log message, the log
  message, and what follows it.
\<close>

lemma build_App_shape:
  assumes "build_App E c = Inr apps"
  shows "\<exists>front behind.
           apps = front @ logConfMsg E c # behind
         \<and> map module_of front = configured (FakeDNS c) M_FakeDNS
         \<and> map module_of behind =
             [M_Dispatcher, M_InboundManager, M_OutboundManager]
             @ configured (API c) M_API @ configured (Metrics c) M_Metrics
             @ configured (Stats c) M_Stats
             @ configured (RouterConfig c) M_Router @ configured (DNSConfig c) M_DNS
             @ configured (Policy c) M_Policy @ configured (Reverse c) M_Reverse
             @ configured (Observatory c) M_Observatory
             @ configured (Tun c) M_Tun"
proof -
  from assms obtain a1 a2 a3 a5 a6 a7 a8 a9 a10 where
    a1: "appendModule (API c) (APIConfig_Build E) App_API
           [App_Dispatcher, App_InboundManager, App_OutboundManager] = Inr a1"
    and a2: "appendModule (Metrics c) (MetricsConfig_Build E) App_Metrics a1 = Inr a2"
    and a3: "(case Stats c of None \<Rightarrow> Inr a2
              | Some st \<Rightarrow> andThen (StatsConfig_Build st) (\<lambda>r. Inr (a2 @ [r]))) = Inr a3"
    and a5: "appendModule (RouterConfig c) (RouterConfig_Build E) App_Router
               ([logConfMsg E c] @ a3) = Inr a5"
    and a6: "appendModule (DNSConfig c)
                (\<lambda>d. case DNSConfig_Build E d of
                        Inl f \<Rightarrow> Inl (wrap FailedToParseDNS f)
                      | Inr r \<Rightarrow> Inr r) App_DNS a5 = Inr a6"
    and a7: "appendModule (Policy c) (PolicyConfig_Build E) App_Policy a6 = Inr a7"
    and a8: "appendModule (Reverse c) (ReverseConfig_Build E) App_Reverse a7 = Inr a8"
    and a9: "(case FakeDNS c of None \<Rightarrow> Inr a8
              | Some d \<Rightarrow> andThen (FakeDNSConfig_Build E d) (\<lambda>r. Inr ([App_FakeDNS r] @ a8)))
             = Inr a9"
    and a10: "appendModule (Observatory c) (ObservatoryConfig_Build E) App_Observatory a9
              = Inr a10"
    and a11: "appendModule (Tun c) (TunConfig_Build E) App_Tun a10 = Inr apps"
    unfolding build_App_def andThen_Inr by blast
  have m3: "map module_of a3 =
              [M_Dispatcher, M_InboundManager, M_OutboundManager]
              @ configured (API c) M_API @ configured (Metrics c) M_Metrics
              @ configured (Stats c) M_Stats"
    using appendModule_modules [OF a1, of M_API] appendModule_modules [OF a2, of M_Metrics] a3
    by (auto simp: configured_def StatsConfig_Build_def split: option.splits)
  from a5 obtain b5 where b5: "a5 = logConfMsg E c # b5"
     "map module_of b5 = map module_of a3 @ configured (RouterConfig c) M_Router"
    by (auto simp: appendModule_def configured_def andThen_Inr split: option.splits)
  from a6 b5 obtain b6 where b6: "a6 = logConfMsg E c # b6"
     "map module_of b6 = map module_of b5 @ configured (DNSConfig c) M_DNS"
    by (auto simp: appendModule_def configured_def andThen_Inr split: option.splits)
  from a7 b6 obtain b7 where b7: "a7 = logConfMsg E c # b7"
     "map module_of b7 = map module_of b6 @ configured (Policy c) M_Policy"
    by (auto simp: appendModule_def configured_def andThen_Inr split: option.splits)
  from a8 b7 obtain b8 where b8: "a8 = logConfMsg E c # b8"
     "map module_of b8 = map module_of b7 @ configured (Reverse c) M_Reverse"
    by (auto simp: appendModule_def configured_def andThen_Inr split: option.splits)
  from a9 b8 obtain front where b9: "a9 = front @ logConfMsg E c # b8"
     "map module_of front = configured (FakeDNS c) M_FakeDNS"
    by (auto simp: configured_def andThen_Inr split: option.splits)
  from a10 b9 obtain b10 where b10: "a10 = front @ logConfMsg E c # b10"
     "map module_of b10 = map module_of b8 @ configured (Observatory c) M_Observatory"
    by (auto simp: appendModule_def configured_def andThen_Inr split: option.splits)
  from a11 b10 obtain b11 where b11: "apps = front @ logConfMsg E c # b11"
     "map module_of b11 = map module_of b10 @ configured (Tun c) M_Tun"
    by (auto simp: appendModule_def configured_def andThen_Inr split: option.splits)
  show ?thesis
    apply (rule exI [of _ front], rule exI [of _ b11])
    using b11 b10(2) b9(2) b8(2) b7(2) b6(2) b5(2) m3 by simp
qed

text \<open>
  Claim C8. If \<open>Config.Build\<close> succeeds, the modules of the App list are in the order of
  the specification, for the document as post-processing left it: fake-DNS first if
  configured, then the log module, then the rest. The log entry is the message built from
  the explicit log config or from the default; nothing but the fake-DNS module is in front
  of it, and neither a log module nor a fake-DNS module comes after it.
\<close>

theorem C8_module_order:
  assumes "Config_Build E c0 = Inr out"
  shows "\<exists>c. PostProcessConfigureFile E c0 = Inr c
           \<and> map module_of (App out) = spec_module_order c
           \<and> (\<exists>front behind.
                 App out = front @ logConfMsg E c # behind
               \<and> map module_of front = configured (FakeDNS c) M_FakeDNS
               \<and> M_Log \<notin> set (map module_of front)
               \<and> M_Log \<notin> set (map module_of behind)
               \<and> M_FakeDNS \<notin> set (map module_of behind))"
proof -
  from assms obtain c apps where c: "PostProcessConfigureFile E c0 = Inr c"
    and apps: "build_App E c = Inr apps" and out: "App out = apps"
    by (auto simp: Config_Build_def andThen_Inr)
  from build_App_shape [OF apps] obtain front behind where
    s: "apps = front @ logConfMsg E c # behind"
       "map module_of front = configured (FakeDNS c) M_FakeDNS"
       "map module_of behind =
             [M_Dispatcher, M_InboundManager, M_OutboundManager]
             @ configured (API c) M_API @ configured (Metrics c) M_Metrics
             @ configured (Stats c) M_Stats
             @ configured (RouterConfig c) M_Router @ configured (DNSConfig c) M_DNS
             @ configured (Policy c) M_Policy @ configured (Reverse c) M_Reverse
             @ configured (Observatory c) M_Observatory
             @ configured (Tun c) M_Tun"
    by blast
  have order: "map module_of (App out) = spec_module_order c"
    by (simp add: out s spec_module_order_def logConfMsg_module)
  have nf: "M_Log \<notin> set (map module_of front)"
    unfolding s(2) by (simp add: configured_def split: option.splits)
  have nb: "M_Log \<notin> set (map module_of behind) \<and> M_FakeDNS \<notin> set (map module_of behind)"
    unfolding s(3) by (simp add: configured_def split: option.splits)
  show ?thesis
    apply (rule exI [of _ c])
    using c order out s(1,2) nf nb by blast
qed

theorem C8_module_order_witness:
  "Config_Build sampleEnv sampleDocument =
     Inr \<lparr>App = [App_FakeDNS ''fake dns'', App_Log ''log'', App_Dispatcher, App_InboundManager,
                 App_OutboundManager, App_API ''api'', App_Tun ''tun''],
          Inbound = [], Outbound = []\<rparr>
   \<and> (\<exists>c. PostProcessConfigureFile sampleEnv sampleDocument = Inr c
         \<and> map module_of [App_FakeDNS ''fake dns'', App_Log ''log'', App_Dispatcher,
                           App_InboundManager, App_OutboundManager, App_API ''api'',
                           App_Tun ''tun'']
             = spec_module_order c)"
proof -
  let ?out = "\<lparr>App = [App_FakeDNS ''fake dns'', App_Log ''log'', App_Dispatcher,
                      App_InboundManager, App_OutboundManager, App_API ''api'', App_Tun ''tun''],
               Inbound = [], Outbound = []\<rparr>"
  have b: "Config_Build sampleEnv sampleDocument = Inr ?out"
    by (simp add: Config_Build_def sampleEnv_def sampleDocument_def zeroConfig_def build_App_def
          appendModule_def logConfMsg_def collect_inbounds_def collect_outbounds_def)
  from C8_module_order [OF b] b show ?thesis by auto
qed

end
